theory Spec2Isabelle
  imports Main "HOL-Library.Sublist"
begin

section \<open>Shared vocabulary: messages, exceptions, process termination\<close>

text \<open>
  The script \<^verbatim>\<open>amplify_deployment_script.py\<close> talks to its operator through
  \<^verbatim>\<open>print\<close>. Each format string of the source is one constructor of \<open>msg\<close>, holding
  the values the f-string interpolates.
\<close>

datatype msg =
    DetectedUsername string
  | AvailableUsers "string list"
  | WarnNoConfigForUser string
  | LoadedConfigFor string
  | ConfigFileNotFound
  | ErrorParsingConfig
  | NoAppSpecified
  | AppNotFound string
  | NotAValidDirectory "string list"
  | NoHtmlFilesFound "string list"
  | ErrorUploadingFile
  | ErrorCreatingDeployment
  | ErrorStartingDeployment
  | ErrorListingBranches
  | ErrorCreatingBranch
  | CreatedNewBranch string
  | ErrorDuringDeployment
  | CreatingDeployment string string
  | CreatedJob string
  | UploadingArtifacts string
  | StartingDeployment string
  | StartedDeployment string
  | DeploymentCompleted string
  | WarnConfiguredBranchMissing string
  | BranchDoesNotExist string
  | NoValidBranchFound
  | BranchLine string
  | AvailableBranchesFor string
  | BranchAndBuildDirRequired
  | Deploying string string
  | DeploymentActionCompleted

text \<open>
  Python exceptions the script raises or lets through. \<open>ClientError\<close> is botocore's
  service error; \<open>ValueError\<close> carries the message of \<^verbatim>\<open>validate_html_directory\<close>;
  \<open>OSError\<close> stands for the errors of the operating system on a file
  (\<^verbatim>\<open>FileNotFoundError\<close>, \<^verbatim>\<open>PermissionError\<close>).
\<close>

datatype exn =
    ValueError msg
  | ClientError
  | RequestException
  | EOFError
  | YAMLError
  | AttributeError
  | OSError

text \<open>
  A function that does not return normally either called \<^verbatim>\<open>sys.exit(n)\<close> or let an
  exception escape. An exception that escapes \<^verbatim>\<open>main\<close> ends the interpreter with a
  traceback and status 1.
\<close>

datatype abort = Exit nat | Raised exn

fun exit_status :: "abort \<Rightarrow> nat" where
  "exit_status (Exit n) = n"
| "exit_status (Raised e) = 1"

section \<open>Configuration\<close>

text \<open>
  The YAML configuration is a mapping username \<open>\<rightarrow>\<close> user entry; a user entry is a
  mapping with the keys \<^verbatim>\<open>AWS_PROFILE\<close> (a string) and \<^verbatim>\<open>apps\<close> (a mapping
  app name \<open>\<rightarrow>\<close> app entry); an app entry maps field names to strings. Python dicts
  keep insertion order, so each mapping is an association list in declaration order.
\<close>

type_synonym app_info = "(string \<times> string) list"

datatype cfg_val = Str string | Apps "(string \<times> app_info) list"

type_synonym user_cfg = "(string \<times> cfg_val) list"

type_synonym all_cfg = "(string \<times> user_cfg) list"

text \<open>\<^verbatim>\<open>d.get(k, default)\<close>\<close>

definition dict_get :: "('k \<times> 'v) list \<Rightarrow> 'k \<Rightarrow> 'v \<Rightarrow> 'v" where
  "dict_get d k dflt = (case map_of d k of None \<Rightarrow> dflt | Some v \<Rightarrow> v)"

text \<open>\<^verbatim>\<open>next(iter(d.values()), default)\<close>\<close>

definition first_value :: "('k \<times> 'v) list \<Rightarrow> 'v \<Rightarrow> 'v" where
  "first_value d dflt = (case d of [] \<Rightarrow> dflt | (k, v) # rest \<Rightarrow> v)"

text \<open>What \<^verbatim>\<open>open\<close> followed by \<^verbatim>\<open>yaml.safe_load\<close> yields for one path.\<close>

datatype 'a file_read = NoSuchFile | Malformed | Parsed 'a

text \<open>
  Lines 40--51 of \<^verbatim>\<open>load_config\<close>, repeated verbatim at lines 58--66 for the
  script-directory path: detect, look up, fall back when the entry is falsy. The
  user name is the value of \<^verbatim>\<open>get_username()\<close>. The result is the printed lines and
  the returned entry.
\<close>

definition select_user :: "all_cfg \<Rightarrow> string \<Rightarrow> msg list \<times> user_cfg" where
  "select_user all_config username =
     (let out1 = [DetectedUsername username, AvailableUsers (map fst all_config)];
          config = dict_get all_config username []
      in if config = []
         then (out1 @ [WarnNoConfigForUser username, LoadedConfigFor username],
               first_value all_config [])
         else (out1 @ [LoadedConfigFor username], config))"

text \<open>
  \<^verbatim>\<open>load_config\<close>: \<open>primary\<close> is what reading \<^verbatim>\<open>config_file\<close> gives, \<open>alt\<close> what
  reading the same name in the script's directory gives. A YAML error on the second
  path is raised inside the \<^verbatim>\<open>except FileNotFoundError\<close> handler, where the outer
  \<^verbatim>\<open>except yaml.YAMLError\<close> does not apply, so it escapes.
\<close>

definition load_config ::
  "all_cfg file_read \<Rightarrow> all_cfg file_read \<Rightarrow> string \<Rightarrow> msg list \<times> (abort + user_cfg)" where
  "load_config primary alt username =
     (case primary of
        Parsed all_config \<Rightarrow>
          (case select_user all_config username of (out, config) \<Rightarrow> (out, Inr config))
      | Malformed \<Rightarrow> ([ErrorParsingConfig], Inl (Exit 1))
      | NoSuchFile \<Rightarrow>
          (case alt of
             Parsed all_config \<Rightarrow>
               (case select_user all_config username of (out, config) \<Rightarrow> (out, Inr config))
           | NoSuchFile \<Rightarrow> ([ConfigFileNotFound], Inr [])
           | Malformed \<Rightarrow> ([], Inl (Raised YAMLError))))"

subsection \<open>App selection\<close>

text \<open>The \<^verbatim>\<open>for name, info in config.get('apps', {}).items()\<close> loop with its \<^verbatim>\<open>break\<close>.
  \<^verbatim>\<open>current_dir.startswith(repo_root)\<close> is the prefix order on strings.\<close>

fun scan_apps :: "(string \<times> app_info) list \<Rightarrow> string \<Rightarrow> string option" where
  "scan_apps [] current_dir = None"
| "scan_apps ((name, info) # rest) current_dir =
     (let repo_root = dict_get info ''repo_root'' ''''
      in if repo_root \<noteq> '''' \<and> prefix repo_root current_dir
         then Some name
         else scan_apps rest current_dir)"

text \<open>\<^verbatim>\<open>not app_name\<close>: \<^verbatim>\<open>None\<close> and the empty string are falsy.\<close>

fun falsy :: "string option \<Rightarrow> bool" where
  "falsy None = True"
| "falsy (Some s) = (s = '''')"

text \<open>\<^verbatim>\<open>config.get('apps', {})\<close>; a string there has neither \<^verbatim>\<open>items\<close> nor \<^verbatim>\<open>get\<close>.\<close>

definition apps_of :: "user_cfg \<Rightarrow> abort + (string \<times> app_info) list" where
  "apps_of config =
     (case map_of config ''apps'' of
        None \<Rightarrow> Inr []
      | Some (Apps a) \<Rightarrow> Inr a
      | Some (Str s) \<Rightarrow> Inl (Raised AttributeError))"

definition get_app_info ::
  "user_cfg \<Rightarrow> string option \<Rightarrow> string \<Rightarrow> msg list \<times> (abort + string \<times> app_info)" where
  "get_app_info config app_name current_dir =
     (case apps_of config of
        Inl a \<Rightarrow> ([], Inl a)
      | Inr apps \<Rightarrow>
          (case (if falsy app_name then scan_apps apps current_dir else app_name) of
             None \<Rightarrow> ([NoAppSpecified], Inl (Exit 1))
           | Some name \<Rightarrow>
               if name = '''' then ([NoAppSpecified], Inl (Exit 1))
               else (case map_of apps name of
                       None \<Rightarrow> ([AppNotFound name], Inl (Exit 1))
                     | Some app_info \<Rightarrow>
                         if app_info = [] then ([AppNotFound name], Inl (Exit 1))
                         else ([], Inr (name, app_info)))))"

text \<open>
  The reading of ``path-prefix'' that the comment in the source gives (``an app whose
  repo\_root is a parent of the current directory''): the components of one path are
  a prefix of the components of the other.
\<close>

fun split_path :: "string \<Rightarrow> string \<Rightarrow> string list" where
  "split_path acc [] = (if acc = [] then [] else [acc])"
| "split_path acc (c # cs) =
     (if c = CHR ''/'' then (if acc = [] then [] else [acc]) @ split_path [] cs
      else split_path (acc @ [c]) cs)"

definition is_path_prefix :: "string \<Rightarrow> string \<Rightarrow> bool" where
  "is_path_prefix root dir = prefix (split_path [] root) (split_path [] dir)"


section \<open>File system and artifact packaging\<close>

text \<open>
  A file system is a tree of directories and files; a path is the list of its
  components, resolved from the root of the tree. File contents are byte strings.
  \<open>Unreadable\<close> is an entry that is no directory and cannot be read as a regular
  file: a dangling symbolic link, a file without read permission.
\<close>

datatype node = File string | Dir "(string \<times> node) list" | Unreadable

type_synonym path = "string list"

fun lookup :: "node \<Rightarrow> path \<Rightarrow> node option" where
  "lookup n [] = Some n"
| "lookup (File c) (x # xs) = None"
| "lookup (Dir es) (x # xs) = (case map_of es x of None \<Rightarrow> None | Some n \<Rightarrow> lookup n xs)"
| "lookup Unreadable (x # xs) = None"

text \<open>Names within one directory are distinct.\<close>

fun wf_node :: "node \<Rightarrow> bool" where
  "wf_node (Dir es) = (distinct (map fst es) \<and> (\<forall>e \<in> set es. wf_node (snd e)))"
| "wf_node n = True"

text \<open>Every entry of the tree that is no directory is a readable regular file.\<close>

fun readable :: "node \<Rightarrow> bool" where
  "readable (File c) = True"
| "readable (Dir es) = (\<forall>e \<in> set es. readable (snd e))"
| "readable Unreadable = False"

fun is_dir :: "node \<Rightarrow> bool" where
  "is_dir (Dir es) = True"
| "is_dir n = False"

text \<open>\<^verbatim>\<open>os.path.isdir\<close>, \<^verbatim>\<open>os.listdir\<close> (names of all entries, of any kind).\<close>

definition isdir :: "node \<Rightarrow> path \<Rightarrow> bool" where
  "isdir fs p = (case lookup fs p of Some (Dir es) \<Rightarrow> True | _ \<Rightarrow> False)"

definition listdir :: "node \<Rightarrow> path \<Rightarrow> string list" where
  "listdir fs p = (case lookup fs p of Some (Dir es) \<Rightarrow> map fst es | _ \<Rightarrow> [])"

text \<open>\<^verbatim>\<open>f.endswith('.html')\<close>\<close>

definition endswith :: "string \<Rightarrow> string \<Rightarrow> bool" where
  "endswith s suf = suffix suf s"

definition validate_html_directory :: "node \<Rightarrow> path \<Rightarrow> exn + unit" where
  "validate_html_directory fs directory =
     (if \<not> isdir fs directory then Inl (ValueError (NotAValidDirectory directory))
      else (let html_files = filter (\<lambda>f. endswith f ''.html'') (listdir fs directory)
            in if html_files = [] then Inl (ValueError (NoHtmlFilesFound directory))
               else Inr ()))"

text \<open>
  \<^verbatim>\<open>os.walk(top)\<close>, top-down: the triple of the directory itself (its path, the
  names of its subdirectories, the names of its other entries), then the walks of
  the subdirectories. Walking something that is not a directory yields nothing.
\<close>

fun walk :: "path \<Rightarrow> node \<Rightarrow> (path \<times> string list \<times> string list) list" where
  "walk root (Dir es) =
     (root, map fst (filter (\<lambda>e. is_dir (snd e)) es), map fst (filter (\<lambda>e. \<not> is_dir (snd e)) es))
     # concat (map (\<lambda>e. walk (root @ [fst e]) (snd e)) es)"
| "walk root n = []"

definition os_walk :: "node \<Rightarrow> path \<Rightarrow> (path \<times> string list \<times> string list) list" where
  "os_walk fs folder = (case lookup fs folder of None \<Rightarrow> [] | Some n \<Rightarrow> walk folder n)"

text \<open>\<^verbatim>\<open>os.path.relpath(p, start)\<close> on component lists.\<close>

fun relpath :: "path \<Rightarrow> path \<Rightarrow> path" where
  "relpath xs [] = xs"
| "relpath [] (y # ys) = replicate (Suc (length ys)) ''..''"
| "relpath (x # xs) (y # ys) =
     (if x = y then relpath xs ys else replicate (Suc (length ys)) ''..'' @ (x # xs))"

text \<open>
  An archive is the list of its members, each an entry name and the bytes stored.
  \<^verbatim>\<open>zipf.write(file_path, arcname=...)\<close> reads the file and appends a member; it
  raises an \<^verbatim>\<open>OSError\<close> when there is no readable regular file at \<open>file_path\<close>
  (\<open>None\<close>).
\<close>

type_synonym archive = "(path \<times> string) list"

definition zip_write :: "node \<Rightarrow> path \<Rightarrow> path \<Rightarrow> (path \<times> string) option" where
  "zip_write fs file_path arcname =
     (case lookup fs file_path of Some (File c) \<Rightarrow> Some (arcname, c) | _ \<Rightarrow> None)"

text \<open>
  The writes of one run in their order, onto the archive so far: the first write
  that raises ends the run, and the members written before it stay in the archive
  (the \<^verbatim>\<open>with\<close> block closes it). The flag tells whether every write succeeded.
\<close>

fun zip_writes :: "(path \<times> string) option list \<Rightarrow> archive \<Rightarrow> archive \<times> bool" where
  "zip_writes [] a = (a, True)"
| "zip_writes (None # ms) a = (a, False)"
| "zip_writes (Some m # ms) a = zip_writes ms (a @ [m])"

text \<open>
  \<^verbatim>\<open>zip_directory\<close>: \<^verbatim>\<open>ZipFile(zip_path, 'w')\<close> creates the archive file, or
  truncates the one that is there, before anything is read; then the two nested
  loops write. The result is the archive left at \<^verbatim>\<open>zip_path\<close> and whether the
  function returned normally. The archive file itself lies outside \<open>folder_path\<close>.
\<close>

definition zip_directory :: "node \<Rightarrow> path \<Rightarrow> archive \<times> bool" where
  "zip_directory fs folder_path =
     zip_writes
       (concat (map (\<lambda>(root, dirs, files).
                       map (\<lambda>file. let file_path = root @ [file]
                                    in zip_write fs file_path (relpath file_path folder_path))
                           files)
                    (os_walk fs folder_path)))
       []"

text \<open>
  Unpacking, as \<^verbatim>\<open>ZipFile.extractall\<close> into an empty directory does it: for each
  member in turn, the missing parent directories are made and the bytes written.
  Extraction fails (\<open>None\<close>) where a parent is no directory, where the target is an
  existing directory or cannot be written, and on an empty entry name.
\<close>

fun mk_file :: "path \<Rightarrow> string \<Rightarrow> node" where
  "mk_file [] c = File c"
| "mk_file (x # xs) c = Dir [(x, mk_file xs c)]"

fun extract_member :: "path \<Rightarrow> string \<Rightarrow> node \<Rightarrow> node option" where
  "extract_member [] c (File old) = Some (File c)"
| "extract_member [] c (Dir es) = None"
| "extract_member (x # xs) c (File old) = None"
| "extract_member (x # xs) c (Dir es) =
     (case map_of es x of
        None \<Rightarrow> Some (Dir (es @ [(x, mk_file xs c)]))
      | Some n \<Rightarrow>
          (case extract_member xs c n of
             None \<Rightarrow> None
           | Some n' \<Rightarrow> Some (Dir (map (\<lambda>e. if fst e = x then (x, n') else e) es))))"
| "extract_member p c Unreadable = None"

fun unpack_into :: "archive \<Rightarrow> node \<Rightarrow> node option" where
  "unpack_into [] t = Some t"
| "unpack_into ((p, c) # rest) t =
     (case extract_member p c t of None \<Rightarrow> None | Some t' \<Rightarrow> unpack_into rest t')"

definition unpack :: "archive \<Rightarrow> node option" where
  "unpack a = unpack_into a (Dir [])"

section \<open>The remote service, the upload sink and the operator\<close>

text \<open>
  The five operations of the Amplify client the script calls, with their arguments
  (app id, branch name, job id).
\<close>

datatype call =
    CreateDeployment string string
  | StartDeployment string string string
  | ListBranches string
  | GetBranch string string
  | CreateBranch string string

text \<open>
  What a call comes back with: a response, \<^verbatim>\<open>NotFoundException\<close>, or another
  \<^verbatim>\<open>ClientError\<close>. \<^verbatim>\<open>NotFoundException\<close> is a subclass of \<^verbatim>\<open>ClientError\<close>.
\<close>

datatype reply = Ok | NotFound | Failed

text \<open>
  The outcome of \<^verbatim>\<open>requests.put\<close>: a \<^verbatim>\<open>RequestException\<close> of the transport, or the
  status code of the final response.
\<close>

datatype upload_reply = TransportError | Status nat

text \<open>The prompts of \<^verbatim>\<open>input\<close>.\<close>

datatype prompt = AskCreateGitBranch string | AskBranchName | AskCreateBranch string

datatype event = Print msg | Remote call reply | Put string upload_reply | Prompt prompt

text \<open>
  Everything outside the script that a run touches:
  \<^item> \<open>branches\<close>: the branches of the app in the remote service;
  \<^item> \<open>faults\<close>: for each coming remote call in turn, whether the service answers it
    with a \<^verbatim>\<open>ClientError\<close> of its own (throttling, permissions, and so on); no
    fault once the list is used up;
  \<^item> \<open>slot\<close>: the upload URL and job id the service issues for a deployment;
  \<^item> \<open>put_reply\<close>: what the upload to that URL results in;
  \<^item> \<open>fs\<close>: the file system; \<open>artifact\<close>: the file \<^verbatim>\<open>artifacts.zip\<close> of the
    working directory, \<open>None\<close> when there is none;
  \<^item> \<open>trace\<close>: prints, remote calls, uploads and prompts so far, oldest first.
\<close>

record world =
  branches :: "string list"
  faults :: "bool list"
  slot :: "string \<times> string"
  put_reply :: upload_reply
  fs :: node
  artifact :: "archive option"
  trace :: "event list"

definition emit :: "event \<Rightarrow> world \<Rightarrow> world" where
  "emit e w = w\<lparr>trace := trace w @ [e]\<rparr>"

definition print :: "msg \<Rightarrow> world \<Rightarrow> world" where
  "print m w = emit (Print m) w"

fun prints :: "msg list \<Rightarrow> world \<Rightarrow> world" where
  "prints [] w = w"
| "prints (m # ms) w = prints ms (print m w)"

text \<open>
  The service answers honestly about the branch set unless a fault is due:
  \<^verbatim>\<open>getBranch\<close> finds exactly the existing branches, \<^verbatim>\<open>createBranch\<close> adds a branch
  that is not there yet and rejects one that is, a deployment needs its branch.
\<close>

fun serve :: "call \<Rightarrow> string list \<Rightarrow> reply" where
  "serve (GetBranch app b) bs = (if b \<in> set bs then Ok else NotFound)"
| "serve (CreateBranch app b) bs = (if b \<in> set bs then Failed else Ok)"
| "serve (ListBranches app) bs = Ok"
| "serve (CreateDeployment app b) bs = (if b \<in> set bs then Ok else NotFound)"
| "serve (StartDeployment app b j) bs = (if b \<in> set bs then Ok else NotFound)"

fun effect :: "call \<Rightarrow> reply \<Rightarrow> string list \<Rightarrow> string list" where
  "effect (CreateBranch app b) Ok bs = bs @ [b]"
| "effect c r bs = bs"

definition remote :: "call \<Rightarrow> world \<Rightarrow> reply \<times> world" where
  "remote c w =
     (case faults w of
        True # rest \<Rightarrow> (Failed, emit (Remote c Failed) (w\<lparr>faults := rest\<rparr>))
      | _ \<Rightarrow>
          (let r = serve c (branches w)
           in (r, emit (Remote c r)
                    (w\<lparr>branches := effect c r (branches w), faults := tl (faults w)\<rparr>))))"

text \<open>\<^verbatim>\<open>response.raise_for_status()\<close> of the requests library raises \<^verbatim>\<open>HTTPError\<close>
  (a \<^verbatim>\<open>RequestException\<close>) for the statuses 400 to 599 and for no other.\<close>

definition raise_for_status :: "nat \<Rightarrow> bool" where
  "raise_for_status status = (400 \<le> status \<and> status < 600)"

text \<open>
  \<^verbatim>\<open>upload_file_to_url\<close>. The file it opens is the artifact; opening a file that is
  not there raises \<^verbatim>\<open>FileNotFoundError\<close>, an \<^verbatim>\<open>OSError\<close> and no \<^verbatim>\<open>RequestException\<close>.
\<close>

definition upload_file_to_url :: "string \<Rightarrow> world \<Rightarrow> (abort + nat) \<times> world" where
  "upload_file_to_url url w =
     (case artifact w of
        None \<Rightarrow> (Inl (Raised OSError), w)
      | Some a \<Rightarrow>
          (let w1 = emit (Put url (put_reply w)) w
           in case put_reply w of
                TransportError \<Rightarrow> (Inl (Exit 1), print ErrorUploadingFile w1)
              | Status status \<Rightarrow>
                  if raise_for_status status then (Inl (Exit 1), print ErrorUploadingFile w1)
                  else (Inr status, w1)))"

definition create_deployment ::
  "string \<Rightarrow> string \<Rightarrow> world \<Rightarrow> (abort + string \<times> string) \<times> world" where
  "create_deployment app_id branch_id w =
     (case remote (CreateDeployment app_id branch_id) w of
        (Ok, w1) \<Rightarrow> (Inr (slot w1), w1)
      | (r, w1) \<Rightarrow> (Inl (Exit 1), print ErrorCreatingDeployment w1))"

definition start_deployment ::
  "string \<Rightarrow> string \<Rightarrow> string \<Rightarrow> world \<Rightarrow> (abort + unit) \<times> world" where
  "start_deployment app_id branch_id job_id w =
     (case remote (StartDeployment app_id branch_id job_id) w of
        (Ok, w1) \<Rightarrow> (Inr (), w1)
      | (r, w1) \<Rightarrow> (Inl (Exit 1), print ErrorStartingDeployment w1))"

definition list_branches :: "string \<Rightarrow> world \<Rightarrow> (abort + string list) \<times> world" where
  "list_branches app_id w =
     (case remote (ListBranches app_id) w of
        (Ok, w1) \<Rightarrow> (Inr (branches w1), w1)
      | (r, w1) \<Rightarrow> (Inl (Exit 1), print ErrorListingBranches w1))"

text \<open>\<^verbatim>\<open>branch_exists\<close> handles \<^verbatim>\<open>NotFoundException\<close> only; any other error escapes.\<close>

definition branch_exists :: "string \<Rightarrow> string \<Rightarrow> world \<Rightarrow> (abort + bool) \<times> world" where
  "branch_exists app_id branch_name w =
     (case remote (GetBranch app_id branch_name) w of
        (Ok, w1) \<Rightarrow> (Inr True, w1)
      | (NotFound, w1) \<Rightarrow> (Inr False, w1)
      | (Failed, w1) \<Rightarrow> (Inl (Raised ClientError), w1))"

text \<open>\<^verbatim>\<open>create_branch\<close> handles every \<^verbatim>\<open>ClientError\<close> and answers \<^verbatim>\<open>False\<close>.\<close>

definition create_branch :: "string \<Rightarrow> string \<Rightarrow> world \<Rightarrow> bool \<times> world" where
  "create_branch app_id branch_name w =
     (case remote (CreateBranch app_id branch_name) w of
        (Ok, w1) \<Rightarrow> (True, print (CreatedNewBranch branch_name) w1)
      | (r, w1) \<Rightarrow> (False, print ErrorCreatingBranch w1))"

subsection \<open>Operator input\<close>

text \<open>\<^verbatim>\<open>str.isspace\<close> on the ASCII range, \<^verbatim>\<open>str.strip\<close>, \<^verbatim>\<open>str.lower\<close> on ASCII letters.\<close>

definition isspace :: "char \<Rightarrow> bool" where
  "isspace c = (let n = (of_char c :: nat) in (9 \<le> n \<and> n \<le> 13) \<or> (28 \<le> n \<and> n \<le> 32))"

definition strip :: "string \<Rightarrow> string" where
  "strip s = rev (dropWhile isspace (rev (dropWhile isspace s)))"

definition lower :: "string \<Rightarrow> string" where
  "lower s = map (\<lambda>c. let n = (of_char c :: nat)
                       in if 65 \<le> n \<and> n \<le> 90 then char_of (n + 32) else c) s"

section \<open>Branch reconciliation\<close>

text \<open>
  The operator's input is the list of lines standard input still holds; \<^verbatim>\<open>input\<close>
  on an exhausted input raises \<^verbatim>\<open>EOFError\<close>. Each function returns its result, the
  world after it and the lines left.

  The \<^verbatim>\<open>while True\<close> loop of \<^verbatim>\<open>get_deployment_branch\<close>: one round reads a name and,
  when the branch is absent, an answer.
\<close>

fun operator_loop ::
  "string \<Rightarrow> world \<Rightarrow> string list \<Rightarrow> (abort + string) \<times> world \<times> string list" where
  "operator_loop app_id w [] = (Inl (Raised EOFError), emit (Prompt AskBranchName) w, [])"
| "operator_loop app_id w (line # rest) =
     (let branch_name = strip line
      in case branch_exists app_id branch_name (emit (Prompt AskBranchName) w) of
           (Inl a, w1) \<Rightarrow> (Inl a, w1, rest)
         | (Inr True, w1) \<Rightarrow> (Inr branch_name, w1, rest)
         | (Inr False, w1) \<Rightarrow>
             (case rest of
                [] \<Rightarrow> (Inl (Raised EOFError), emit (Prompt (AskCreateBranch branch_name)) w1, [])
              | answer # rest' \<Rightarrow>
                  (let w2 = emit (Prompt (AskCreateBranch branch_name)) w1
                   in if strip (lower answer) = ''y''
                      then (case create_branch app_id branch_name w2 of
                              (True, w3) \<Rightarrow> (Inr branch_name, w3, rest')
                            | (False, w3) \<Rightarrow> operator_loop app_id w3 rest')
                      else operator_loop app_id w2 rest')))"

text \<open>Lines 246--259: list the branches, then loop.\<close>

definition try_operator_choice ::
  "string \<Rightarrow> world \<Rightarrow> string list \<Rightarrow> (abort + string) \<times> world \<times> string list" where
  "try_operator_choice app_id w ins =
     (case list_branches app_id (print NoValidBranchFound w) of
        (Inl a, w1) \<Rightarrow> (Inl a, w1, ins)
      | (Inr bs, w1) \<Rightarrow> operator_loop app_id (prints (map BranchLine bs) w1) ins)"

text \<open>Lines 236--244: the branch of the local repository.\<close>

definition try_version_control ::
  "string \<Rightarrow> string option \<Rightarrow> world \<Rightarrow> string list
     \<Rightarrow> (abort + string) \<times> world \<times> string list" where
  "try_version_control app_id git_branch w ins =
     (case git_branch of
        None \<Rightarrow> try_operator_choice app_id w ins
      | Some g \<Rightarrow>
          if g = '''' then try_operator_choice app_id w ins
          else (case branch_exists app_id g w of
                  (Inl a, w1) \<Rightarrow> (Inl a, w1, ins)
                | (Inr True, w1) \<Rightarrow> (Inr g, w1, ins)
                | (Inr False, w1) \<Rightarrow>
                    (let w2 = emit (Prompt (AskCreateGitBranch g))
                                (print (BranchDoesNotExist g) w1)
                     in case ins of
                          [] \<Rightarrow> (Inl (Raised EOFError), w2, [])
                        | answer # rest \<Rightarrow>
                            if strip (lower answer) = ''y''
                            then (case create_branch app_id g w2 of
                                    (True, w3) \<Rightarrow> (Inr g, w3, rest)
                                  | (False, w3) \<Rightarrow> try_operator_choice app_id w3 rest)
                            else try_operator_choice app_id w2 rest)))"

definition get_deployment_branch ::
  "string \<Rightarrow> string option \<Rightarrow> string option \<Rightarrow> world \<Rightarrow> string list
     \<Rightarrow> (abort + string) \<times> world \<times> string list" where
  "get_deployment_branch app_id config_branch git_branch w ins =
     (case config_branch of
        None \<Rightarrow> try_version_control app_id git_branch w ins
      | Some c \<Rightarrow>
          if c = '''' then try_version_control app_id git_branch w ins
          else (case branch_exists app_id c w of
                  (Inl a, w1) \<Rightarrow> (Inl a, w1, ins)
                | (Inr True, w1) \<Rightarrow> (Inr c, w1, ins)
                | (Inr False, w1) \<Rightarrow>
                    try_version_control app_id git_branch
                      (print (WarnConfiguredBranchMissing c) w1) ins))"

section \<open>Deployment\<close>

text \<open>
  \<^verbatim>\<open>deploy\<close>. The \<^verbatim>\<open>except Exception\<close> handler turns every exception raised in the
  body into a message and \<^verbatim>\<open>sys.exit(1)\<close>; the \<^verbatim>\<open>SystemExit\<close> of a helper is no
  \<^verbatim>\<open>Exception\<close> and passes through. The artifact file is written by
  \<^verbatim>\<open>zip_directory\<close>, also when packing fails half-way, and removed by \<^verbatim>\<open>os.remove\<close>
  at the end of a successful run only.
\<close>

definition handler :: "(abort + 'a) \<times> world \<Rightarrow> (abort + 'a) \<times> world" where
  "handler rw =
     (case rw of
        (Inl (Raised e), w) \<Rightarrow> (Inl (Exit 1), print ErrorDuringDeployment w)
      | _ \<Rightarrow> rw)"

definition deploy_body :: "string \<Rightarrow> string \<Rightarrow> path \<Rightarrow> world \<Rightarrow> (abort + unit) \<times> world" where
  "deploy_body app_id branch_id directory w =
     (case validate_html_directory (fs w) directory of
        Inl e \<Rightarrow> (Inl (Raised e), w)
      | Inr u \<Rightarrow>
          (case zip_directory (fs w) directory of
             (a, False) \<Rightarrow> (Inl (Raised OSError), w\<lparr>artifact := Some a\<rparr>)
           | (a, True) \<Rightarrow>
               (case create_deployment app_id branch_id
                       (print (CreatingDeployment app_id branch_id) (w\<lparr>artifact := Some a\<rparr>)) of
                  (Inl x, w1) \<Rightarrow> (Inl x, w1)
                | (Inr (upload_url, job_id), w1) \<Rightarrow>
                    (case upload_file_to_url upload_url
                            (prints [CreatedJob job_id, UploadingArtifacts upload_url] w1) of
                       (Inl x, w2) \<Rightarrow> (Inl x, w2)
                     | (Inr response, w2) \<Rightarrow>
                         (case start_deployment app_id branch_id job_id
                                 (print (StartingDeployment job_id) w2) of
                            (Inl x, w3) \<Rightarrow> (Inl x, w3)
                          | (Inr u', w3) \<Rightarrow>
                              (Inr (),
                               print (DeploymentCompleted job_id)
                                 ((print (StartedDeployment job_id) w3)\<lparr>artifact := None\<rparr>)))))))"

definition deploy :: "string \<Rightarrow> string \<Rightarrow> path \<Rightarrow> world \<Rightarrow> (abort + unit) \<times> world" where
  "deploy app_id branch_id directory w = handler (deploy_body app_id branch_id directory w)"

subsection \<open>The deploy action of \<^verbatim>\<open>main\<close>\<close>

text \<open>A path string resolves to its components; \<^verbatim>\<open>.\<close> stands for the directory itself.\<close>

definition to_path :: "string \<Rightarrow> path" where
  "to_path s = filter (\<lambda>c. c \<noteq> ''.'') (split_path [] s)"

text \<open>
  Lines 293--305 of \<^verbatim>\<open>main\<close>, after the app is selected: \<open>args_branch\<close> is
  \<^verbatim>\<open>args.branch\<close>, \<open>git_branch\<close> what \<^verbatim>\<open>get_current_git_branch()\<close> returned.
\<close>

definition main_deploy ::
  "string \<Rightarrow> string \<Rightarrow> app_info \<Rightarrow> string option \<Rightarrow> string option \<Rightarrow> world \<Rightarrow> string list
     \<Rightarrow> (abort + unit) \<times> world \<times> string list" where
  "main_deploy app_name app_id app_info args_branch git_branch w ins =
     (let build_directory = map_of app_info ''build_directory'';
          config_branch = (if falsy args_branch then map_of app_info ''default_branch''
                           else args_branch)
      in case get_deployment_branch app_id config_branch git_branch w ins of
           (Inl a, w1, ins1) \<Rightarrow> (Inl a, w1, ins1)
         | (Inr branch_id, w1, ins1) \<Rightarrow>
             (case build_directory of
                None \<Rightarrow> (Inl (Exit 1), print BranchAndBuildDirRequired w1, ins1)
              | Some d \<Rightarrow>
                  if branch_id = '''' \<or> d = ''''
                  then (Inl (Exit 1), print BranchAndBuildDirRequired w1, ins1)
                  else (case deploy app_id branch_id (to_path d)
                               (print (Deploying app_name branch_id) w1) of
                          (Inl a, w2) \<Rightarrow> (Inl a, w2, ins1)
                        | (Inr u, w2) \<Rightarrow> (Inr (), print DeploymentActionCompleted w2, ins1))))"

subsection \<open>The actions of \<^verbatim>\<open>main\<close>\<close>

text \<open>
  Lines 288--292 of \<^verbatim>\<open>main\<close>, the action \<^verbatim>\<open>list-branches\<close>.
\<close>

definition main_list_branches :: "string \<Rightarrow> string \<Rightarrow> world \<Rightarrow> (abort + unit) \<times> world" where
  "main_list_branches app_name app_id w =
     (case list_branches app_id w of
        (Inl a, w1) \<Rightarrow> (Inl a, w1)
      | (Inr bs, w1) \<Rightarrow> (Inr (), prints (AvailableBranchesFor app_name # map BranchLine bs) w1))"

text \<open>
  The two actions that follow the selection of the app (lines 288--305). The third
  action, \<^verbatim>\<open>list-apps\<close>, returns before it (line 279) and calls no remote operation.
\<close>

datatype action = ListBranchesAction | DeployAction

definition main_action ::
  "action \<Rightarrow> string \<Rightarrow> string \<Rightarrow> app_info \<Rightarrow> string option \<Rightarrow> string option \<Rightarrow> world
     \<Rightarrow> string list \<Rightarrow> (abort + unit) \<times> world \<times> string list" where
  "main_action act app_name app_id app_info args_branch git_branch w ins =
     (case act of
        ListBranchesAction \<Rightarrow>
          (case main_list_branches app_name app_id w of (r, w1) \<Rightarrow> (r, w1, ins))
      | DeployAction \<Rightarrow> main_deploy app_name app_id app_info args_branch git_branch w ins)"

section \<open>Reading a trace\<close>

text \<open>The remote calls of a trace with their replies, oldest first.\<close>

fun remote_calls :: "event list \<Rightarrow> (call \<times> reply) list" where
  "remote_calls [] = []"
| "remote_calls (Remote c r # es) = (c, r) # remote_calls es"
| "remote_calls (e # es) = remote_calls es"

text \<open>
  A branch is confirmed in a world when it is among the remote branches and the
  latest remote call is the \<^verbatim>\<open>getBranch\<close> that found it or the \<^verbatim>\<open>createBranch\<close> that
  made it.
\<close>

definition confirmed :: "string \<Rightarrow> string \<Rightarrow> world \<Rightarrow> bool" where
  "confirmed app_id b w =
     (b \<in> set (branches w) \<and>
      (\<exists>earlier. remote_calls (trace w) = earlier @ [(GetBranch app_id b, Ok)]
               \<or> remote_calls (trace w) = earlier @ [(CreateBranch app_id b, Ok)]))"

text \<open>The events of packaging's successors: the deployment calls and the upload.\<close>

fun deploy_event :: "event \<Rightarrow> bool" where
  "deploy_event (Remote (CreateDeployment a b) r) = True"
| "deploy_event (Remote (StartDeployment a b j) r) = True"
| "deploy_event (Put u r) = True"
| "deploy_event e = False"

text \<open>An upload that \<^verbatim>\<open>upload_file_to_url\<close> treats as failed.\<close>

fun upload_failed :: "upload_reply \<Rightarrow> bool" where
  "upload_failed TransportError = True"
| "upload_failed (Status status) = raise_for_status status"

text \<open>
  A service error in the sense of the error taxonomy: a remote call answered with an
  error, \<^verbatim>\<open>getBranch\<close>'s not-found apart. The errors of \<^verbatim>\<open>createBranch\<close> are kept
  separate: \<^verbatim>\<open>create_branch\<close> handles them.
\<close>

fun fatal_event :: "event \<Rightarrow> bool" where
  "fatal_event (Remote (CreateBranch a b) r) = False"
| "fatal_event (Remote (GetBranch a b) r) = (r = Failed)"
| "fatal_event (Remote c r) = (r \<noteq> Ok)"
| "fatal_event e = False"

text \<open>
  The message with which the helper of a call stops the script when the call fails,
  for the helpers that print one and call \<^verbatim>\<open>sys.exit(1)\<close>.
\<close>

fun diagnostic :: "call \<Rightarrow> msg option" where
  "diagnostic (CreateDeployment a b) = Some ErrorCreatingDeployment"
| "diagnostic (StartDeployment a b j) = Some ErrorStartingDeployment"
| "diagnostic (ListBranches a) = Some ErrorListingBranches"
| "diagnostic c = None"

fun is_print :: "event \<Rightarrow> bool" where
  "is_print (Print m) = True"
| "is_print e = False"

text \<open>
  What may follow a service error in a trace: prints only, so no remote call, no
  prompt and no upload; and where the helper of the call has a message, that
  message and nothing else.
\<close>

fun stops_after :: "event \<Rightarrow> event list \<Rightarrow> bool" where
  "stops_after (Remote c r) es =
     (case diagnostic c of Some m \<Rightarrow> es = [Print m] | None \<Rightarrow> list_all is_print es)"
| "stops_after e es = list_all is_print es"

text \<open>A trace stops after its first service error.\<close>

fun halts_after_fatal :: "event list \<Rightarrow> bool" where
  "halts_after_fatal [] = True"
| "halts_after_fatal (e # es) =
     (if fatal_event e then stops_after e es else halts_after_fatal es)"

text \<open>The events a run added: the trace of the later world past the earlier one's.\<close>

definition since :: "world \<Rightarrow> world \<Rightarrow> event list" where
  "since w w' = drop (length (trace w)) (trace w')"

text \<open>
  A world is clean when no service error has happened in it. A run is settled in
  the world it ends in when the trace stops at its first service error and either
  the run returned and the world is clean, or the run aborted with exit status 1.
\<close>

definition clean :: "world \<Rightarrow> bool" where
  "clean w = (\<forall>e \<in> set (trace w). \<not> fatal_event e)"

definition settled :: "abort + 'a \<Rightarrow> world \<Rightarrow> bool" where
  "settled r w =
     (halts_after_fatal (trace w) \<and>
      (case r of Inr v \<Rightarrow> clean w | Inl a \<Rightarrow> exit_status a = 1))"

section \<open>A sample world\<close>

text \<open>
  Scenario 1 of the specification: the app \<^verbatim>\<open>app123\<close> has the remote branch
  \<^verbatim>\<open>main\<close>, the build directory \<^verbatim>\<open>dist\<close> holds an HTML page, a style sheet in a
  subdirectory and an empty directory; nothing fails.
\<close>

definition sample_fs :: node where
  "sample_fs =
     Dir [(''dist'', Dir [(''index.html'', File ''<html></html>''),
                          (''css'', Dir [(''site.css'', File ''body {}'')]),
                          (''empty'', Dir [])]),
          (''notes.txt'', File ''todo'')]"

definition sample_world :: world where
  "sample_world =
     \<lparr>branches = [''main''], faults = [], slot = (''https://upload'', ''job-1''),
      put_reply = Status 200, fs = sample_fs, artifact = None, trace = []\<rparr>"

section \<open>Properties\<close>

subsection \<open>Configuration lookup\<close>

lemma select_user_match:
  "map_of all_config u = Some c \<Longrightarrow> c \<noteq> [] \<Longrightarrow>
   select_user all_config u =
     ([DetectedUsername u, AvailableUsers (map fst all_config), LoadedConfigFor u], c)"
  by (simp add: select_user_def dict_get_def)

lemma select_user_fallback:
  "map_of all_config u = None \<or> map_of all_config u = Some [] \<Longrightarrow>
   select_user all_config u =
     ([DetectedUsername u, AvailableUsers (map fst all_config), WarnNoConfigForUser u,
       LoadedConfigFor u],
      (case all_config of [] \<Rightarrow> [] | (k, v) # rest \<Rightarrow> v))"
  by (auto simp add: select_user_def dict_get_def first_value_def)

text \<open>
  Claim C7, as stated, at a user whose entry is there but empty: \<open>alice\<close> is a key of
  the mapping, and \<^verbatim>\<open>load_config\<close> returns the entry of \<open>bob\<close>, the first declared
  user, not hers.
\<close>

theorem load_config_present_counterexample:
  "map_of [(''bob'', [(''AWS_PROFILE'', Str ''ops'')]), (''alice'', [])] ''alice'' = Some []
   \<and> snd (load_config (Parsed [(''bob'', [(''AWS_PROFILE'', Str ''ops'')]), (''alice'', [])])
             NoSuchFile ''alice'')
       = Inr [(''AWS_PROFILE'', Str ''ops'')]
   \<and> Inr [(''AWS_PROFILE'', Str ''ops'')] \<noteq> (Inr [] :: abort + user_cfg)"
  by (simp add: load_config_def select_user_def dict_get_def first_value_def)

text \<open>
  Claim C7, amended: when the configuration file is read (at the given path, or at
  the script's directory when the given path does not exist), a user name that is a
  key with a non-empty entry gets exactly that entry and no warning is printed; a
  user name that is not a key gets the warning
  \<^verbatim>\<open>No configuration found for user\<close> and the first declared entry (the empty
  configuration when the mapping declares no user). The warning is what tells a
  fallback from a match.
\<close>

theorem load_config_lookup:
  "(primary = Parsed all_config \<or> (primary = NoSuchFile \<and> alt = Parsed all_config)) \<longrightarrow>
   (\<forall>c. map_of all_config u = Some c \<and> c \<noteq> [] \<longrightarrow>
      load_config primary alt u =
        ([DetectedUsername u, AvailableUsers (map fst all_config), LoadedConfigFor u], Inr c)) \<and>
   (map_of all_config u = None \<longrightarrow>
      load_config primary alt u =
        ([DetectedUsername u, AvailableUsers (map fst all_config), WarnNoConfigForUser u,
          LoadedConfigFor u],
         Inr (case all_config of [] \<Rightarrow> [] | (k, v) # rest \<Rightarrow> v)))"
  by (auto simp add: load_config_def select_user_match select_user_fallback)

theorem load_config_lookup_witness:
  "load_config (Parsed [(''alice'', [(''AWS_PROFILE'', Str ''dev'')]),
                        (''bob'', [(''AWS_PROFILE'', Str ''ops'')])])
      NoSuchFile ''bob''
     = ([DetectedUsername ''bob'', AvailableUsers [''alice'', ''bob''], LoadedConfigFor ''bob''],
        Inr [(''AWS_PROFILE'', Str ''ops'')])
   \<and> load_config (Parsed [(''alice'', [(''AWS_PROFILE'', Str ''dev'')]),
                          (''bob'', [(''AWS_PROFILE'', Str ''ops'')])])
      NoSuchFile ''carol''
     = ([DetectedUsername ''carol'', AvailableUsers [''alice'', ''bob''],
         WarnNoConfigForUser ''carol'', LoadedConfigFor ''carol''],
        Inr [(''AWS_PROFILE'', Str ''dev'')])"
  using load_config_lookup
      [of "Parsed [(''alice'', [(''AWS_PROFILE'', Str ''dev'')]),
                   (''bob'', [(''AWS_PROFILE'', Str ''ops'')])]"
          "[(''alice'', [(''AWS_PROFILE'', Str ''dev'')]),
            (''bob'', [(''AWS_PROFILE'', Str ''ops'')])]" NoSuchFile "''bob''"]
    load_config_lookup
      [of "Parsed [(''alice'', [(''AWS_PROFILE'', Str ''dev'')]),
                   (''bob'', [(''AWS_PROFILE'', Str ''ops'')])]"
          "[(''alice'', [(''AWS_PROFILE'', Str ''dev'')]),
            (''bob'', [(''AWS_PROFILE'', Str ''ops'')])]" NoSuchFile "''carol''"]
  by simp

text \<open>
  Claim C9, as stated, at a user who is declared first with an empty entry: the
  fallback takes the first declared entry, which is her own, so \<^verbatim>\<open>load_config\<close>
  does return that user's empty entry.
\<close>

theorem load_config_empty_entry_counterexample:
  "map_of [(''alice'', []), (''bob'', [(''AWS_PROFILE'', Str ''ops'')])] ''alice'' = Some []
   \<and> snd (load_config (Parsed [(''alice'', []), (''bob'', [(''AWS_PROFILE'', Str ''ops'')])])
             NoSuchFile ''alice'')
       = Inr []"
  by (simp add: load_config_def select_user_def dict_get_def first_value_def)

text \<open>
  Claim C9, amended: a user name that is a key with an empty entry is treated as a
  user name that is no key at all: the fallback warning is printed and the first
  declared entry is returned. What is returned differs from the user's own empty
  entry whenever the first declared entry is not empty.
\<close>

theorem load_config_empty_entry:
  assumes "map_of all_config u = Some []"
    and "primary = Parsed all_config \<or> (primary = NoSuchFile \<and> alt = Parsed all_config)"
  shows "load_config primary alt u =
     ([DetectedUsername u, AvailableUsers (map fst all_config), WarnNoConfigForUser u,
       LoadedConfigFor u],
      Inr (case all_config of [] \<Rightarrow> [] | (k, v) # rest \<Rightarrow> v))
   \<and> (\<forall>k v rest. all_config = (k, v) # rest \<and> v \<noteq> [] \<longrightarrow>
         snd (load_config primary alt u) \<noteq> Inr [])"
proof -
  have sel: "select_user all_config u =
     ([DetectedUsername u, AvailableUsers (map fst all_config), WarnNoConfigForUser u,
       LoadedConfigFor u],
      (case all_config of [] \<Rightarrow> [] | (k, v) # rest \<Rightarrow> v))"
    using assms(1) by (intro select_user_fallback) simp
  have run: "load_config primary alt u =
     (case select_user all_config u of (out, config) \<Rightarrow> (out, Inr config))"
    using assms(2) by (auto simp add: load_config_def)
  show ?thesis
    unfolding run sel by auto
qed

theorem load_config_empty_entry_witness:
  "load_config (Parsed [(''bob'', [(''AWS_PROFILE'', Str ''ops'')]), (''alice'', [])])
      NoSuchFile ''alice''
     = ([DetectedUsername ''alice'', AvailableUsers [''bob'', ''alice''],
         WarnNoConfigForUser ''alice'', LoadedConfigFor ''alice''],
        Inr [(''AWS_PROFILE'', Str ''ops'')])
   \<and> snd (load_config (Parsed [(''bob'', [(''AWS_PROFILE'', Str ''ops'')]), (''alice'', [])])
            NoSuchFile ''alice'') \<noteq> Inr []"
  using load_config_empty_entry
      [of "[(''bob'', [(''AWS_PROFILE'', Str ''ops'')]), (''alice'', [])]" "''alice''"
          "Parsed [(''bob'', [(''AWS_PROFILE'', Str ''ops'')]), (''alice'', [])]" NoSuchFile]
  by simp

subsection \<open>App selection\<close>

text \<open>
  Claim C5 at a working directory that is a sibling of an app's \<^verbatim>\<open>repo_root\<close>, not
  inside it: \<^verbatim>\<open>/home/u/app\<close> is no path-prefix (no parent) of \<^verbatim>\<open>/home/u/app2\<close>, yet
  \<^verbatim>\<open>get_app_info\<close> selects the app, because \<^verbatim>\<open>str.startswith\<close> compares characters.
\<close>

theorem get_app_info_string_prefix:
  "get_app_info
      [(''apps'', Apps [(''site'', [(''app_id'', ''app123''), (''repo_root'', ''/home/u/app'')])])]
      None ''/home/u/app2''
     = ([], Inr (''site'', [(''app_id'', ''app123''), (''repo_root'', ''/home/u/app'')]))
   \<and> \<not> is_path_prefix ''/home/u/app'' ''/home/u/app2''"
  by (simp add: get_app_info_def apps_of_def dict_get_def is_path_prefix_def)

subsection \<open>Traces and the remote service\<close>

lemma remote_calls_append [simp]:
  "remote_calls (xs @ ys) = remote_calls xs @ remote_calls ys"
  by (induction xs rule: remote_calls.induct) auto

lemma trace_emit [simp]: "trace (emit e w) = trace w @ [e]"
  by (simp add: emit_def)

lemma branches_emit [simp]: "branches (emit e w) = branches w"
  by (simp add: emit_def)

lemma artifact_emit [simp]: "artifact (emit e w) = artifact w"
  by (simp add: emit_def)

lemma trace_print [simp]: "trace (print m w) = trace w @ [Print m]"
  by (simp add: print_def)

lemma branches_print [simp]: "branches (print m w) = branches w"
  by (simp add: print_def)

lemma artifact_print [simp]: "artifact (print m w) = artifact w"
  by (simp add: print_def)

lemma branches_prints [simp]: "branches (prints ms w) = branches w"
  by (induction ms arbitrary: w) auto

lemma artifact_prints [simp]: "artifact (prints ms w) = artifact w"
  by (induction ms arbitrary: w) auto

lemma trace_prints [simp]: "trace (prints ms w) = trace w @ map Print ms"
  by (induction ms arbitrary: w) auto

lemma remote_calls_prints [simp]: "remote_calls (map Print ms) = []"
  by (induction ms) auto

text \<open>One remote call: the trace grows by the call, the branch set by its effect.\<close>

lemma remote_result:
  "remote c w = (r, w') \<Longrightarrow>
     trace w' = trace w @ [Remote c r] \<and>
     (r = Ok \<longrightarrow> serve c (branches w) = Ok) \<and>
     branches w' = effect c r (branches w) \<and>
     artifact w' = artifact w"
  by (cases c; cases r)
     (auto simp add: remote_def Let_def split: list.splits bool.splits if_splits)

subsection \<open>Branch reconciliation returns existing branches\<close>

lemma branch_exists_True:
  assumes "branch_exists app_id b w = (Inr True, w')"
  shows "confirmed app_id b w'"
proof -
  from assms have r: "remote (GetBranch app_id b) w = (Ok, w')"
    by (auto simp add: branch_exists_def split: prod.splits reply.splits)
  from remote_result [OF r] show ?thesis
    by (auto simp add: confirmed_def split: if_splits)
qed

lemma create_branch_True:
  assumes "create_branch app_id b w = (True, w')"
  shows "confirmed app_id b w'"
proof -
  from assms obtain w1 where r: "remote (CreateBranch app_id b) w = (Ok, w1)"
    and w': "w' = print (CreatedNewBranch b) w1"
    by (auto simp add: create_branch_def split: prod.splits reply.splits)
  from remote_result [OF r] show ?thesis
    by (auto simp add: confirmed_def w' split: if_splits)
qed

text \<open>The loop returns only out of a round that confirmed the name it read.\<close>

lemma operator_loop_confirmed:
  "operator_loop app_id w ins = (Inr b, w', ins') \<Longrightarrow> confirmed app_id b w'"
proof (induction app_id w ins rule: operator_loop.induct)
  case (1 app_id w)
  then show ?case by simp
next
  case (2 app_id w line rest)
  then show ?case
    by (auto simp add: Let_def split: prod.splits sum.splits bool.splits list.splits if_splits
          dest: branch_exists_True create_branch_True)
qed

lemma try_operator_choice_confirmed:
  "try_operator_choice app_id w ins = (Inr b, w', ins') \<Longrightarrow> confirmed app_id b w'"
  by (auto simp add: try_operator_choice_def split: prod.splits sum.splits
        dest: operator_loop_confirmed)

lemma try_version_control_confirmed:
  "try_version_control app_id git w ins = (Inr b, w', ins') \<Longrightarrow> confirmed app_id b w'"
  by (auto simp add: try_version_control_def Let_def
        split: option.splits prod.splits sum.splits bool.splits list.splits if_splits
        dest: try_operator_choice_confirmed branch_exists_True create_branch_True)

text \<open>
  Claim C1: for every configured branch (given or not), every version-control
  branch (given or not), every world and every sequence of operator input lines,
  when \<^verbatim>\<open>get_deployment_branch\<close> returns a branch name, that branch is among the
  remote branches of the world at return, and the latest remote call of the run is
  the \<^verbatim>\<open>getBranch\<close> that found it or the \<^verbatim>\<open>createBranch\<close> that created it. The remote
  branch set changes through the calls of this run only.
\<close>

theorem get_deployment_branch_exists:
  assumes "get_deployment_branch app_id config_branch git_branch w ins = (Inr b, w', ins')"
  shows "b \<in> set (branches w') \<and>
         (\<exists>earlier. remote_calls (trace w') = earlier @ [(GetBranch app_id b, Ok)]
                  \<or> remote_calls (trace w') = earlier @ [(CreateBranch app_id b, Ok)])"
proof -
  have "confirmed app_id b w'"
    using assms
    by (auto simp add: get_deployment_branch_def
          split: option.splits prod.splits sum.splits bool.splits if_splits
          dest: try_version_control_confirmed branch_exists_True)
  then show ?thesis by (simp add: confirmed_def)
qed

theorem get_deployment_branch_exists_witness:
  "get_deployment_branch ''app123'' None (Some ''feature-x'') sample_world
      [''n'', '' feature-x'', ''Y '']
    = (Inr ''feature-x'',
       \<lparr>branches = [''main'', ''feature-x''], faults = [], slot = (''https://upload'', ''job-1''),
        put_reply = Status 200, fs = sample_fs, artifact = None,
        trace = [Remote (GetBranch ''app123'' ''feature-x'') NotFound,
                 Print (BranchDoesNotExist ''feature-x''),
                 Prompt (AskCreateGitBranch ''feature-x''),
                 Print NoValidBranchFound,
                 Remote (ListBranches ''app123'') Ok,
                 Print (BranchLine ''main''),
                 Prompt AskBranchName,
                 Remote (GetBranch ''app123'' ''feature-x'') NotFound,
                 Prompt (AskCreateBranch ''feature-x''),
                 Remote (CreateBranch ''app123'' ''feature-x'') Ok,
                 Print (CreatedNewBranch ''feature-x'')]\<rparr>,
       [])
   \<and> ''feature-x'' \<in> set [''main'', ''feature-x'']"
proof -
  have run: "get_deployment_branch ''app123'' None (Some ''feature-x'') sample_world
      [''n'', '' feature-x'', ''Y '']
    = (Inr ''feature-x'',
       \<lparr>branches = [''main'', ''feature-x''], faults = [], slot = (''https://upload'', ''job-1''),
        put_reply = Status 200, fs = sample_fs, artifact = None,
        trace = [Remote (GetBranch ''app123'' ''feature-x'') NotFound,
                 Print (BranchDoesNotExist ''feature-x''),
                 Prompt (AskCreateGitBranch ''feature-x''),
                 Print NoValidBranchFound,
                 Remote (ListBranches ''app123'') Ok,
                 Print (BranchLine ''main''),
                 Prompt AskBranchName,
                 Remote (GetBranch ''app123'' ''feature-x'') NotFound,
                 Prompt (AskCreateBranch ''feature-x''),
                 Remote (CreateBranch ''app123'' ''feature-x'') Ok,
                 Print (CreatedNewBranch ''feature-x'')]\<rparr>,
       [])"
    by code_simp
  from get_deployment_branch_exists [OF run] show ?thesis
    using run by simp
qed

subsection \<open>A configured branch that exists decides alone\<close>

lemma remote_GetBranch_present:
  assumes "c \<in> set (branches w)"
  shows "remote (GetBranch app_id c) w
           = (if \<exists>rest. faults w = True # rest
              then (Failed, emit (Remote (GetBranch app_id c) Failed) (w\<lparr>faults := tl (faults w)\<rparr>))
              else (Ok, emit (Remote (GetBranch app_id c) Ok) (w\<lparr>faults := tl (faults w)\<rparr>)))"
  using assms by (auto simp add: remote_def Let_def split: list.splits bool.splits)

text \<open>
  Claim C8, as stated, at a configured branch \<^verbatim>\<open>main\<close> that exists remotely while
  the service answers \<^verbatim>\<open>getBranch\<close> with a \<^verbatim>\<open>ClientError\<close> of its own: the run does
  not return the configured branch, the error escapes \<^verbatim>\<open>branch_exists\<close>.
\<close>

theorem get_deployment_branch_configured_counterexample:
  "''main'' \<in> set (branches (sample_world\<lparr>faults := [True]\<rparr>))
   \<and> get_deployment_branch ''app123'' (Some ''main'') None (sample_world\<lparr>faults := [True]\<rparr>) []
     = (Inl (Raised ClientError),
        sample_world\<lparr>trace := [Remote (GetBranch ''app123'' ''main'') Failed]\<rparr>, [])"
  by (simp add: get_deployment_branch_def branch_exists_def remote_def sample_world_def emit_def)

text \<open>
  Claim C8, amended: let the configured branch be given (non-empty) and exist
  remotely. Then any two runs of \<^verbatim>\<open>get_deployment_branch\<close> that differ only in the
  version-control branch and in the operator's input lines end alike: where the
  service answers the \<^verbatim>\<open>getBranch\<close> call, both return the configured branch; where
  it answers that call with an error of its own, both abort with that error. Either
  way each run leaves all its input lines unread and adds to the trace the one
  \<^verbatim>\<open>getBranch\<close> call and nothing else, so no prompt is shown and \<^verbatim>\<open>createBranch\<close> is
  not called.
\<close>

theorem get_deployment_branch_configured:
  assumes "c \<noteq> ''''" and "c \<in> set (branches w)"
  shows "((\<forall>rest. faults w \<noteq> True # rest) \<longrightarrow>
            get_deployment_branch app_id (Some c) git1 w ins1
              = (Inr c, emit (Remote (GetBranch app_id c) Ok) (w\<lparr>faults := tl (faults w)\<rparr>), ins1)
          \<and> get_deployment_branch app_id (Some c) git2 w ins2
              = (Inr c, emit (Remote (GetBranch app_id c) Ok) (w\<lparr>faults := tl (faults w)\<rparr>), ins2))
       \<and> ((\<exists>rest. faults w = True # rest) \<longrightarrow>
            get_deployment_branch app_id (Some c) git1 w ins1
              = (Inl (Raised ClientError),
                 emit (Remote (GetBranch app_id c) Failed) (w\<lparr>faults := tl (faults w)\<rparr>), ins1)
          \<and> get_deployment_branch app_id (Some c) git2 w ins2
              = (Inl (Raised ClientError),
                 emit (Remote (GetBranch app_id c) Failed) (w\<lparr>faults := tl (faults w)\<rparr>), ins2))"
proof -
  note r = remote_GetBranch_present [OF assms(2), of app_id]
  have ok: "branch_exists app_id c w
          = (Inr True, emit (Remote (GetBranch app_id c) Ok) (w\<lparr>faults := tl (faults w)\<rparr>))"
    if "\<forall>rest. faults w \<noteq> True # rest"
    using r that by (simp add: branch_exists_def)
  have bad: "branch_exists app_id c w
          = (Inl (Raised ClientError),
             emit (Remote (GetBranch app_id c) Failed) (w\<lparr>faults := tl (faults w)\<rparr>))"
    if "\<exists>rest. faults w = True # rest"
    using r that by (simp add: branch_exists_def)
  from ok bad assms(1) show ?thesis
    by (simp add: get_deployment_branch_def)
qed

theorem get_deployment_branch_configured_witness:
  "get_deployment_branch ''app123'' (Some ''main'') None sample_world []
     = (Inr ''main'',
        sample_world\<lparr>trace := [Remote (GetBranch ''app123'' ''main'') Ok]\<rparr>, [])
   \<and> get_deployment_branch ''app123'' (Some ''main'') (Some ''feature-x'') sample_world
        [''y'', ''other'']
     = (Inr ''main'',
        sample_world\<lparr>trace := [Remote (GetBranch ''app123'' ''main'') Ok]\<rparr>, [''y'', ''other''])
   \<and> get_deployment_branch ''app123'' (Some ''main'') None
        (sample_world\<lparr>faults := [True, False]\<rparr>) [''n'']
     = (Inl (Raised ClientError),
        sample_world\<lparr>faults := [False],
                      trace := [Remote (GetBranch ''app123'' ''main'') Failed]\<rparr>, [''n''])
   \<and> get_deployment_branch ''app123'' (Some ''main'') (Some ''feature-x'')
        (sample_world\<lparr>faults := [True, False]\<rparr>) [''y'', ''other'']
     = (Inl (Raised ClientError),
        sample_world\<lparr>faults := [False],
                      trace := [Remote (GetBranch ''app123'' ''main'') Failed]\<rparr>,
        [''y'', ''other''])"
  using get_deployment_branch_configured
          [of "''main''" sample_world "''app123''" None "[]" "Some ''feature-x''" "[''y'', ''other'']"]
        get_deployment_branch_configured
          [of "''main''" "sample_world\<lparr>faults := [True, False]\<rparr>" "''app123''" None "[''n'']"
              "Some ''feature-x''" "[''y'', ''other'']"]
  by (simp add: sample_world_def emit_def)

subsection \<open>Validation of the build directory\<close>

lemma isdir_iff: "isdir disk d \<longleftrightarrow> (\<exists>es. lookup disk d = Some (Dir es))"
  by (auto simp add: isdir_def split: option.splits node.splits)

text \<open>
  What \<^verbatim>\<open>validate_html_directory\<close> tests: whether the path is a directory, and
  then the names of the directory's immediate entries, of whatever kind.
\<close>

lemma validate_html_directory_names:
  "(validate_html_directory disk d = Inl (ValueError (NotAValidDirectory d))
      \<longleftrightarrow> \<not> (\<exists>es. lookup disk d = Some (Dir es)))
   \<and> (\<forall>es. lookup disk d = Some (Dir es) \<longrightarrow>
        (validate_html_directory disk d = Inl (ValueError (NoHtmlFilesFound d))
           \<longleftrightarrow> (\<forall>e \<in> set es. \<not> suffix ''.html'' (fst e)))
      \<and> (validate_html_directory disk d = Inr ()
           \<longleftrightarrow> (\<exists>e \<in> set es. suffix ''.html'' (fst e))))"
  by (auto simp add: validate_html_directory_def isdir_iff listdir_def endswith_def
        filter_empty_conv Let_def)

text \<open>
  Claim C4 at a build directory whose only entry is a subdirectory named
  \<^verbatim>\<open>x.html\<close>: the directory contains no file at all, so no file with the extension
  \<^verbatim>\<open>.html\<close>, and the claim has \<^verbatim>\<open>validate_html_directory\<close> raise the no-HTML error.
  The code returns normally: its list \<^verbatim>\<open>html_files\<close> is filled from
  \<^verbatim>\<open>os.listdir\<close>, which names entries of every kind, and the test is on the name
  alone.
\<close>

theorem validate_html_directory_accepts_subdirectory:
  "lookup (Dir [(''dist'', Dir [(''x.html'', Dir [])])]) [''dist'']
     = Some (Dir [(''x.html'', Dir [])])
   \<and> validate_html_directory (Dir [(''dist'', Dir [(''x.html'', Dir [])])]) [''dist''] = Inr ()"
  by (simp add: validate_html_directory_def isdir_def listdir_def endswith_def suffix_def)

subsection \<open>Reconciliation neither packages nor deploys\<close>

text \<open>
  What branch reconciliation leaves alone: the artifact file and the deployment
  events of the trace. Every way it can stop without a branch ends the process with
  status 1.
\<close>

lemma filter_deploy_prints [simp]: "filter deploy_event (map Print ms) = []"
  by (induction ms) auto

lemma remote_frame:
  assumes "remote c w = (r, w')" and "\<not> deploy_event (Remote c r)"
  shows "artifact w' = artifact w
       \<and> filter deploy_event (trace w') = filter deploy_event (trace w)"
  using remote_result [OF assms(1)] assms(2) by simp

lemma branch_exists_frame:
  assumes "branch_exists app_id b w = (r, w')"
  shows "artifact w' = artifact w
       \<and> filter deploy_event (trace w') = filter deploy_event (trace w)
       \<and> (\<forall>a. r = Inl a \<longrightarrow> exit_status a = 1)"
proof -
  obtain rp w1 where rem: "remote (GetBranch app_id b) w = (rp, w1)"
    by (cases "remote (GetBranch app_id b) w")
  from remote_frame [OF rem] assms rem show ?thesis
    by (cases rp) (auto simp add: branch_exists_def)
qed

lemma create_branch_frame:
  assumes "create_branch app_id b w = (r, w')"
  shows "artifact w' = artifact w
       \<and> filter deploy_event (trace w') = filter deploy_event (trace w)"
proof -
  obtain rp w1 where rem: "remote (CreateBranch app_id b) w = (rp, w1)"
    by (cases "remote (CreateBranch app_id b) w")
  from remote_frame [OF rem] assms rem show ?thesis
    by (cases rp) (auto simp add: create_branch_def)
qed

lemma list_branches_frame:
  assumes "list_branches app_id w = (r, w')"
  shows "artifact w' = artifact w
       \<and> filter deploy_event (trace w') = filter deploy_event (trace w)
       \<and> (\<forall>a. r = Inl a \<longrightarrow> exit_status a = 1)"
proof -
  obtain rp w1 where rem: "remote (ListBranches app_id) w = (rp, w1)"
    by (cases "remote (ListBranches app_id) w")
  from remote_frame [OF rem] assms rem show ?thesis
    by (cases rp) (auto simp add: list_branches_def)
qed

lemma operator_loop_frame:
  "operator_loop app_id w ins = (r, w', ins') \<Longrightarrow>
     artifact w' = artifact w
     \<and> filter deploy_event (trace w') = filter deploy_event (trace w)
     \<and> (\<forall>a. r = Inl a \<longrightarrow> exit_status a = 1)"
proof (induction app_id w ins rule: operator_loop.induct)
  case (1 app_id w)
  then show ?case by auto
next
  case (2 app_id w line rest)
  obtain r1 w1 where be: "branch_exists app_id (strip line) (emit (Prompt AskBranchName) w) = (r1, w1)"
    by (cases "branch_exists app_id (strip line) (emit (Prompt AskBranchName) w)")
  note f1 = branch_exists_frame [OF be]
  show ?case
  proof (cases r1)
    case (Inl a)
    with 2(3) be f1 show ?thesis by (auto simp add: Let_def)
  next
    case (Inr found)
    show ?thesis
    proof (cases found)
      case True
      with 2(3) be f1 Inr show ?thesis by (auto simp add: Let_def)
    next
      case False
      show ?thesis
      proof (cases rest)
        case Nil
        with 2(3) be f1 Inr False show ?thesis by (auto simp add: Let_def)
      next
        case (Cons answer rest')
        let ?w2 = "emit (Prompt (AskCreateBranch (strip line))) w1"
        show ?thesis
        proof (cases "strip (lower answer) = ''y''")
          case yes: True
          obtain ok w3 where cb: "create_branch app_id (strip line) ?w2 = (ok, w3)"
            by (cases "create_branch app_id (strip line) ?w2")
          note f2 = create_branch_frame [OF cb]
          show ?thesis
          proof (cases ok)
            case True
            with 2(3) be f1 Inr False Cons yes cb f2 show ?thesis
              by (auto simp add: Let_def)
          next
            case nok: False
            have rec: "operator_loop app_id w3 rest' = (r, w', ins')"
              using 2(3) be Inr False Cons yes cb nok by (simp add: Let_def)
            have "artifact w' = artifact w3
              \<and> filter deploy_event (trace w') = filter deploy_event (trace w3)
              \<and> (\<forall>a. r = Inl a \<longrightarrow> exit_status a = 1)"
              using "2.IH"(1) [OF refl be [symmetric] _ _ Cons refl yes cb [symmetric] _ rec]
                Inr False nok by simp
            with f1 f2 show ?thesis by simp
          qed
        next
          case no: False
          have rec: "operator_loop app_id ?w2 rest' = (r, w', ins')"
            using 2(3) be Inr False Cons no by (simp add: Let_def)
          have "artifact w' = artifact ?w2
              \<and> filter deploy_event (trace w') = filter deploy_event (trace ?w2)
              \<and> (\<forall>a. r = Inl a \<longrightarrow> exit_status a = 1)"
            using "2.IH"(2) [OF refl be [symmetric] _ _ Cons refl no rec]
              Inr False by simp
          with f1 show ?thesis by simp
        qed
      qed
    qed
  qed
qed

lemma try_operator_choice_frame:
  assumes "try_operator_choice app_id w ins = (r, w', ins')"
  shows "artifact w' = artifact w
     \<and> filter deploy_event (trace w') = filter deploy_event (trace w)
     \<and> (\<forall>a. r = Inl a \<longrightarrow> exit_status a = 1)"
proof -
  obtain r1 w1 where lb: "list_branches app_id (print NoValidBranchFound w) = (r1, w1)"
    by (cases "list_branches app_id (print NoValidBranchFound w)")
  note f1 = list_branches_frame [OF lb]
  show ?thesis
  proof (cases r1)
    case (Inl a)
    with assms lb f1 show ?thesis by (auto simp add: try_operator_choice_def)
  next
    case (Inr bs)
    with assms lb have "operator_loop app_id (prints (map BranchLine bs) w1) ins = (r, w', ins')"
      by (simp add: try_operator_choice_def)
    from operator_loop_frame [OF this] f1 show ?thesis by simp
  qed
qed

lemma try_version_control_frame:
  assumes "try_version_control app_id git w ins = (r, w', ins')"
  shows "artifact w' = artifact w
     \<and> filter deploy_event (trace w') = filter deploy_event (trace w)
     \<and> (\<forall>a. r = Inl a \<longrightarrow> exit_status a = 1)"
proof (cases "falsy git")
  case True
  with assms have "try_operator_choice app_id w ins = (r, w', ins')"
    by (cases git) (auto simp add: try_version_control_def)
  then show ?thesis by (rule try_operator_choice_frame)
next
  case False
  then obtain g where g: "git = Some g" "g \<noteq> ''''" by (cases git) auto
  obtain r1 w1 where be: "branch_exists app_id g w = (r1, w1)"
    by (cases "branch_exists app_id g w")
  note f1 = branch_exists_frame [OF be]
  let ?w2 = "emit (Prompt (AskCreateGitBranch g)) (print (BranchDoesNotExist g) w1)"
  show ?thesis
  proof (cases r1)
    case (Inl a)
    with assms g be f1 show ?thesis by (auto simp add: try_version_control_def)
  next
    case (Inr found)
    show ?thesis
    proof (cases found)
      case True
      with assms g be f1 Inr show ?thesis by (auto simp add: try_version_control_def)
    next
      case False
      show ?thesis
      proof (cases ins)
        case Nil
        with assms g be f1 Inr False show ?thesis
          by (auto simp add: try_version_control_def Let_def)
      next
        case (Cons answer rest)
        show ?thesis
        proof (cases "strip (lower answer) = ''y''")
          case yes: True
          obtain ok w3 where cb: "create_branch app_id g ?w2 = (ok, w3)"
            by (cases "create_branch app_id g ?w2")
          note f2 = create_branch_frame [OF cb]
          show ?thesis
          proof (cases ok)
            case True
            with assms g be f1 Inr False Cons yes cb f2 show ?thesis
              by (auto simp add: try_version_control_def Let_def)
          next
            case nok: False
            with assms g be Inr False Cons yes cb
            have "try_operator_choice app_id w3 rest = (r, w', ins')"
              by (simp add: try_version_control_def Let_def)
            from try_operator_choice_frame [OF this] f1 f2 show ?thesis by simp
          qed
        next
          case no: False
          with assms g be Inr False Cons
          have "try_operator_choice app_id ?w2 rest = (r, w', ins')"
            by (simp add: try_version_control_def Let_def)
          from try_operator_choice_frame [OF this] f1 show ?thesis by simp
        qed
      qed
    qed
  qed
qed

lemma get_deployment_branch_frame:
  assumes "get_deployment_branch app_id cfg git w ins = (r, w', ins')"
  shows "artifact w' = artifact w
     \<and> filter deploy_event (trace w') = filter deploy_event (trace w)
     \<and> (\<forall>a. r = Inl a \<longrightarrow> exit_status a = 1)"
proof (cases "falsy cfg")
  case True
  with assms have "try_version_control app_id git w ins = (r, w', ins')"
    by (cases cfg) (auto simp add: get_deployment_branch_def)
  then show ?thesis by (rule try_version_control_frame)
next
  case False
  then obtain c where c: "cfg = Some c" "c \<noteq> ''''" by (cases cfg) auto
  obtain r1 w1 where be: "branch_exists app_id c w = (r1, w1)"
    by (cases "branch_exists app_id c w")
  note f1 = branch_exists_frame [OF be]
  show ?thesis
  proof (cases r1)
    case (Inl a)
    with assms c be f1 show ?thesis by (auto simp add: get_deployment_branch_def)
  next
    case (Inr found)
    show ?thesis
    proof (cases found)
      case True
      with assms c be f1 Inr show ?thesis by (auto simp add: get_deployment_branch_def)
    next
      case False
      with assms c be Inr
      have "try_version_control app_id git (print (WarnConfiguredBranchMissing c) w1) ins
              = (r, w', ins')"
        by (simp add: get_deployment_branch_def)
      from try_version_control_frame [OF this] f1 show ?thesis by simp
    qed
  qed
qed

text \<open>
  Claim C10: in the deploy action the branch is reconciled first and the presence of
  \<^verbatim>\<open>build_directory\<close> is checked afterwards. For every app entry without a
  \<^verbatim>\<open>build_directory\<close> (missing or empty), \<^verbatim>\<open>main\<close> runs the whole reconciliation,
  prompts and \<^verbatim>\<open>createBranch\<close> included, and then stops: with the message about the
  missing branch or build directory and status 1 when reconciliation returned a
  branch, with reconciliation's own abort otherwise. In every case the exit status
  is 1, no artifact is written and no deployment call or upload is made. The last
  conjunct is such a run: the operator agrees to create \<^verbatim>\<open>feature-x\<close>, the branch is
  created remotely, and only then the process exits.
\<close>

theorem main_deploy_without_build_directory:
  assumes "falsy (map_of app_info ''build_directory'')"
  shows "main_deploy app_name app_id app_info args_branch git w ins =
           (case get_deployment_branch app_id
                   (if falsy args_branch then map_of app_info ''default_branch'' else args_branch)
                   git w ins of
              (Inl a, w1, ins1) \<Rightarrow> (Inl a, w1, ins1)
            | (Inr branch_id, w1, ins1) \<Rightarrow>
                (Inl (Exit 1), print BranchAndBuildDirRequired w1, ins1))
       \<and> (\<exists>a. fst (main_deploy app_name app_id app_info args_branch git w ins) = Inl a
              \<and> exit_status a = 1)
       \<and> artifact (fst (snd (main_deploy app_name app_id app_info args_branch git w ins)))
           = artifact w
       \<and> filter deploy_event
            (trace (fst (snd (main_deploy app_name app_id app_info args_branch git w ins))))
           = filter deploy_event (trace w)
       \<and> main_deploy ''site'' ''app123'' [(''app_id'', ''app123'')] None (Some ''feature-x'')
           sample_world [''y'']
           = (Inl (Exit 1),
              \<lparr>branches = [''main'', ''feature-x''], faults = [],
               slot = (''https://upload'', ''job-1''), put_reply = Status 200, fs = sample_fs,
               artifact = None,
               trace = [Remote (GetBranch ''app123'' ''feature-x'') NotFound,
                        Print (BranchDoesNotExist ''feature-x''),
                        Prompt (AskCreateGitBranch ''feature-x''),
                        Remote (CreateBranch ''app123'' ''feature-x'') Ok,
                        Print (CreatedNewBranch ''feature-x''),
                        Print BranchAndBuildDirRequired]\<rparr>,
              [])"
proof -
  let ?cfg = "if falsy args_branch then map_of app_info ''default_branch'' else args_branch"
  obtain r1 w1 ins1 where run: "get_deployment_branch app_id ?cfg git w ins = (r1, w1, ins1)"
    by (cases "get_deployment_branch app_id ?cfg git w ins")
  note f = get_deployment_branch_frame [OF run]
  have eq: "main_deploy app_name app_id app_info args_branch git w ins =
           (case get_deployment_branch app_id ?cfg git w ins of
              (Inl a, w1, ins1) \<Rightarrow> (Inl a, w1, ins1)
            | (Inr branch_id, w1, ins1) \<Rightarrow>
                (Inl (Exit 1), print BranchAndBuildDirRequired w1, ins1))"
    using assms
    by (cases "map_of app_info ''build_directory''")
       (auto simp add: main_deploy_def Let_def split: prod.splits sum.splits)
  have sample: "main_deploy ''site'' ''app123'' [(''app_id'', ''app123'')] None (Some ''feature-x'')
           sample_world [''y'']
           = (Inl (Exit 1),
              \<lparr>branches = [''main'', ''feature-x''], faults = [],
               slot = (''https://upload'', ''job-1''), put_reply = Status 200, fs = sample_fs,
               artifact = None,
               trace = [Remote (GetBranch ''app123'' ''feature-x'') NotFound,
                        Print (BranchDoesNotExist ''feature-x''),
                        Prompt (AskCreateGitBranch ''feature-x''),
                        Remote (CreateBranch ''app123'' ''feature-x'') Ok,
                        Print (CreatedNewBranch ''feature-x''),
                        Print BranchAndBuildDirRequired]\<rparr>,
              [])"
    by code_simp
  have general: "(\<exists>a. fst (main_deploy app_name app_id app_info args_branch git w ins) = Inl a
              \<and> exit_status a = 1)
       \<and> artifact (fst (snd (main_deploy app_name app_id app_info args_branch git w ins)))
           = artifact w
       \<and> filter deploy_event
            (trace (fst (snd (main_deploy app_name app_id app_info args_branch git w ins))))
           = filter deploy_event (trace w)"
    unfolding eq run using f by (cases r1) auto
  from eq general sample show ?thesis by blast
qed

theorem main_deploy_without_build_directory_witness:
  "falsy (map_of [(''app_id'', ''app123'')] ''build_directory'')
   \<and> (\<exists>a. fst (main_deploy ''site'' ''app123'' [(''app_id'', ''app123'')] None
                  (Some ''feature-x'') sample_world [''y'']) = Inl a
          \<and> exit_status a = 1)
   \<and> artifact (fst (snd (main_deploy ''site'' ''app123'' [(''app_id'', ''app123'')] None
                  (Some ''feature-x'') sample_world [''y''])))
       = artifact sample_world"
proof -
  have h: "falsy (map_of [(''app_id'', ''app123'')] ''build_directory'')"
    by simp
  note t = main_deploy_without_build_directory
             [where app_info = "[(''app_id'', ''app123'')]" and app_name = "''site''"
                and app_id = "''app123''" and args_branch = None
                and git = "Some ''feature-x''" and w = sample_world and ins = "[''y'']", OF h]
  from h t show ?thesis by blast
qed

subsection \<open>The deploy sequence stops at the first failing step\<close>

lemma since_append [simp]: "trace w' = trace w @ t \<Longrightarrow> since w w' = t"
  by (simp add: since_def)

lemma put_reply_emit [simp]: "put_reply (emit e w) = put_reply w"
  by (simp add: emit_def)

lemma put_reply_print [simp]: "put_reply (print m w) = put_reply w"
  by (simp add: print_def)

lemma slot_emit [simp]: "slot (emit e w) = slot w"
  by (simp add: emit_def)

lemma slot_print [simp]: "slot (print m w) = slot w"
  by (simp add: print_def)

lemma remote_put_reply:
  "remote c w = (r, w') \<Longrightarrow> put_reply w' = put_reply w \<and> slot w' = slot w"
  by (auto simp add: remote_def Let_def emit_def split: list.splits bool.splits)

text \<open>The six ways a deployment can go.\<close>

lemma deploy_run:
  assumes run: "deploy app_id branch_id directory w = (r, w')"
  obtains
    (invalid) "validate_html_directory (fs w) directory \<noteq> Inr ()"
      "r = Inl (Exit 1)" "w' = print ErrorDuringDeployment w"
  | (unpacked) a where "validate_html_directory (fs w) directory = Inr ()"
      "zip_directory (fs w) directory = (a, False)"
      "r = Inl (Exit 1)" "w' = print ErrorDuringDeployment (w\<lparr>artifact := Some a\<rparr>)"
  | (refused) a rp where "validate_html_directory (fs w) directory = Inr ()"
      "zip_directory (fs w) directory = (a, True)"
      "rp \<noteq> Ok" "r = Inl (Exit 1)" "artifact w' = Some a"
      "trace w' = trace w @ [Print (CreatingDeployment app_id branch_id),
                             Remote (CreateDeployment app_id branch_id) rp,
                             Print ErrorCreatingDeployment]"
  | (upload) a where "validate_html_directory (fs w) directory = Inr ()"
      "zip_directory (fs w) directory = (a, True)"
      "upload_failed (put_reply w)" "r = Inl (Exit 1)" "artifact w' = Some a"
      "trace w' = trace w @ [Print (CreatingDeployment app_id branch_id),
                             Remote (CreateDeployment app_id branch_id) Ok,
                             Print (CreatedJob (snd (slot w))),
                             Print (UploadingArtifacts (fst (slot w))),
                             Put (fst (slot w)) (put_reply w),
                             Print ErrorUploadingFile]"
  | (start) a rp where "validate_html_directory (fs w) directory = Inr ()"
      "zip_directory (fs w) directory = (a, True)"
      "\<not> upload_failed (put_reply w)" "rp \<noteq> Ok" "r = Inl (Exit 1)" "artifact w' = Some a"
      "trace w' = trace w @ [Print (CreatingDeployment app_id branch_id),
                             Remote (CreateDeployment app_id branch_id) Ok,
                             Print (CreatedJob (snd (slot w))),
                             Print (UploadingArtifacts (fst (slot w))),
                             Put (fst (slot w)) (put_reply w),
                             Print (StartingDeployment (snd (slot w))),
                             Remote (StartDeployment app_id branch_id (snd (slot w))) rp,
                             Print ErrorStartingDeployment]"
  | (completed) a where "validate_html_directory (fs w) directory = Inr ()"
      "zip_directory (fs w) directory = (a, True)"
      "\<not> upload_failed (put_reply w)" "r = Inr ()" "artifact w' = None"
      "trace w' = trace w @ [Print (CreatingDeployment app_id branch_id),
                             Remote (CreateDeployment app_id branch_id) Ok,
                             Print (CreatedJob (snd (slot w))),
                             Print (UploadingArtifacts (fst (slot w))),
                             Put (fst (slot w)) (put_reply w),
                             Print (StartingDeployment (snd (slot w))),
                             Remote (StartDeployment app_id branch_id (snd (slot w))) Ok,
                             Print (StartedDeployment (snd (slot w))),
                             Print (DeploymentCompleted (snd (slot w)))]"
proof (cases "validate_html_directory (fs w) directory")
  case (Inl e)
  with run have "r = Inl (Exit 1)" "w' = print ErrorDuringDeployment w"
    by (auto simp add: deploy_def deploy_body_def handler_def)
  with Inl invalid show ?thesis by simp
next
  case (Inr u)
  then have valid: "validate_html_directory (fs w) directory = Inr ()" by simp
  obtain a ok where z: "zip_directory (fs w) directory = (a, ok)"
    by (cases "zip_directory (fs w) directory")
  show ?thesis
  proof (cases ok)
    case False
    with run valid z have "r = Inl (Exit 1)"
      "w' = print ErrorDuringDeployment (w\<lparr>artifact := Some a\<rparr>)"
      by (auto simp add: deploy_def deploy_body_def handler_def)
    with valid z False unpacked show ?thesis by simp
  next
    case True
    with z have z: "zip_directory (fs w) directory = (a, True)" by simp
    let ?w0 = "print (CreatingDeployment app_id branch_id) (w\<lparr>artifact := Some a\<rparr>)"
    obtain rp1 w1 where r1: "remote (CreateDeployment app_id branch_id) ?w0 = (rp1, w1)"
      by (cases "remote (CreateDeployment app_id branch_id) ?w0")
    note f1 = remote_result [OF r1] remote_put_reply [OF r1]
    have t1: "trace w1 = trace w @ [Print (CreatingDeployment app_id branch_id),
                                    Remote (CreateDeployment app_id branch_id) rp1]"
      and a1: "artifact w1 = Some a" and p1: "put_reply w1 = put_reply w"
      and s1: "slot w1 = slot w"
      using f1 by simp_all
    show ?thesis
    proof (cases "rp1 = Ok")
      case False
      with run valid z r1 have "r = Inl (Exit 1)" "w' = print ErrorCreatingDeployment w1"
        by (cases rp1; simp add: deploy_def deploy_body_def handler_def create_deployment_def)+
      with valid z False t1 a1 refused [of a rp1] show ?thesis by simp
    next
      case ok1: True
      obtain upload_url job_id where sl: "slot w = (upload_url, job_id)"
        by (cases "slot w")
      let ?w1' = "prints [CreatedJob job_id, UploadingArtifacts upload_url] w1"
      let ?w2 = "emit (Put upload_url (put_reply w)) ?w1'"
      have art1: "artifact ?w1' = Some a" using a1 by simp
      have pr1: "put_reply ?w1' = put_reply w" using p1 by simp
      have t2: "trace ?w2 = trace w @ [Print (CreatingDeployment app_id branch_id),
                                       Remote (CreateDeployment app_id branch_id) Ok,
                                       Print (CreatedJob job_id),
                                       Print (UploadingArtifacts upload_url),
                                       Put upload_url (put_reply w)]"
        using t1 ok1 by simp
      have cd: "create_deployment app_id branch_id ?w0 = (Inr (upload_url, job_id), w1)"
        using r1 ok1 s1 sl by (simp add: create_deployment_def)
      show ?thesis
      proof (cases "upload_failed (put_reply w)")
        case True
        then have "upload_file_to_url upload_url ?w1' = (Inl (Exit 1), print ErrorUploadingFile ?w2)"
          using art1 pr1
          by (cases "put_reply w") (simp_all add: upload_file_to_url_def Let_def)
        with run valid z cd have "r = Inl (Exit 1)" "w' = print ErrorUploadingFile ?w2"
          by (simp_all add: deploy_def deploy_body_def handler_def)
        with valid z True t2 a1 sl upload [of a] show ?thesis by simp
      next
        case up: False
        let ?w2' = "print (StartingDeployment job_id) ?w2"
        obtain rp3 w3 where r3: "remote (StartDeployment app_id branch_id job_id) ?w2' = (rp3, w3)"
          by (cases "remote (StartDeployment app_id branch_id job_id) ?w2'")
        note f3 = remote_result [OF r3]
        have t3: "trace w3 = trace w @ [Print (CreatingDeployment app_id branch_id),
                                       Remote (CreateDeployment app_id branch_id) Ok,
                                       Print (CreatedJob job_id),
                                       Print (UploadingArtifacts upload_url),
                                       Put upload_url (put_reply w),
                                       Print (StartingDeployment job_id),
                                       Remote (StartDeployment app_id branch_id job_id) rp3]"
          and a3: "artifact w3 = Some a"
          using f3 t2 a1 by simp_all
        from up obtain status where st: "put_reply w = Status status" "\<not> raise_for_status status"
          by (cases "put_reply w") auto
        have upl: "upload_file_to_url upload_url ?w1' = (Inr status, ?w2)"
          using art1 pr1 st by (simp add: upload_file_to_url_def Let_def)
        show ?thesis
        proof (cases "rp3 = Ok")
          case False
          with run valid z cd upl r3
          have "r = Inl (Exit 1)" "w' = print ErrorStartingDeployment w3"
            by (cases rp3;
                simp add: deploy_def deploy_body_def handler_def start_deployment_def)+
          with valid z up False t3 a3 sl start [of a rp3] show ?thesis by simp
        next
          case True
          with run valid z cd upl r3
          have "r = Inr ()"
            "w' = print (DeploymentCompleted job_id)
                    ((print (StartedDeployment job_id) w3)\<lparr>artifact := None\<rparr>)"
            by (simp_all add: deploy_def deploy_body_def handler_def start_deployment_def)
          with valid z up True t3 sl completed [of a] show ?thesis
            by (simp add: print_def emit_def)
        qed
      qed
    qed
  qed
qed

text \<open>
  Claim C2, as stated, at an upload answered with status 304: the status is not
  2xx, yet \<^verbatim>\<open>raise_for_status\<close> raises for 4xx and 5xx only, so the process goes on
  to \<^verbatim>\<open>startDeployment\<close>, deletes the artifact and returns normally.
\<close>

theorem deploy_upload_304_counterexample:
  "\<not> (200 \<le> (304::nat) \<and> (304::nat) < 300)
   \<and> deploy ''app123'' ''main'' [''dist''] (sample_world\<lparr>put_reply := Status 304\<rparr>)
     = (Inr (),
        \<lparr>branches = [''main''], faults = [], slot = (''https://upload'', ''job-1''),
         put_reply = Status 304, fs = sample_fs, artifact = None,
         trace = [Print (CreatingDeployment ''app123'' ''main''),
                  Remote (CreateDeployment ''app123'' ''main'') Ok,
                  Print (CreatedJob ''job-1''),
                  Print (UploadingArtifacts ''https://upload''),
                  Put ''https://upload'' (Status 304),
                  Print (StartingDeployment ''job-1''),
                  Remote (StartDeployment ''app123'' ''main'' ''job-1'') Ok,
                  Print (StartedDeployment ''job-1''),
                  Print (DeploymentCompleted ''job-1'')]\<rparr>)"
proof -
  have "deploy ''app123'' ''main'' [''dist''] (sample_world\<lparr>put_reply := Status 304\<rparr>)
     = (Inr (),
        \<lparr>branches = [''main''], faults = [], slot = (''https://upload'', ''job-1''),
         put_reply = Status 304, fs = sample_fs, artifact = None,
         trace = [Print (CreatingDeployment ''app123'' ''main''),
                  Remote (CreateDeployment ''app123'' ''main'') Ok,
                  Print (CreatedJob ''job-1''),
                  Print (UploadingArtifacts ''https://upload''),
                  Put ''https://upload'' (Status 304),
                  Print (StartingDeployment ''job-1''),
                  Remote (StartDeployment ''app123'' ''main'' ''job-1'') Ok,
                  Print (StartedDeployment ''job-1''),
                  Print (DeploymentCompleted ''job-1'')]\<rparr>)"
    by code_simp
  then show ?thesis by simp
qed

text \<open>
  Claim C2, amended: in the deploy sequence each step's failure aborts all remaining
  steps and surfaces the error: the run ends with an error message as its last
  output and exit status 1. What a run of \<^verbatim>\<open>deploy\<close> adds to the trace is fixed by
  the step that fails first:
  \<^item> validation fails: the error message alone; nothing is packed, so the artifact
    file is as before, and no remote call or upload is made;
  \<^item> packing fails: the error message alone; the artifact file holds what was
    written;
  \<^item> \<^verbatim>\<open>createDeployment\<close> fails: that call and its error message; no upload, no
    \<^verbatim>\<open>startDeployment\<close>;
  \<^item> the upload fails, by a \<^verbatim>\<open>RequestException\<close> of the transport or by a 4xx or 5xx
    status (the statuses \<^verbatim>\<open>raise_for_status\<close> rejects): \<^verbatim>\<open>createDeployment\<close>, the
    upload and its error message; no \<^verbatim>\<open>startDeployment\<close>;
  \<^item> \<^verbatim>\<open>startDeployment\<close> fails: the three steps and its error message;
  \<^item> nothing fails: the three steps; only then the run returns normally and the
    artifact file is deleted.
  In the last four failures the artifact file stays on disk. In particular, after an
  upload that failed the process exits with status 1, \<^verbatim>\<open>startDeployment\<close> is not
  called and the artifact file remains. An upload answered with a status outside
  2xx that is neither 4xx nor 5xx is no failure.
\<close>

theorem deploy_abort_sequence:
  assumes run: "deploy app_id branch_id directory w = (r, w')"
  shows "trace w' = trace w @ since w w'
    \<and> (validate_html_directory (fs w) directory \<noteq> Inr () \<longrightarrow>
          r = Inl (Exit 1) \<and> since w w' = [Print ErrorDuringDeployment]
          \<and> artifact w' = artifact w)
    \<and> (validate_html_directory (fs w) directory = Inr () \<longrightarrow>
         (\<forall>a. zip_directory (fs w) directory = (a, False) \<longrightarrow>
            r = Inl (Exit 1) \<and> since w w' = [Print ErrorDuringDeployment]
            \<and> artifact w' = Some a)
       \<and> (\<forall>a. zip_directory (fs w) directory = (a, True) \<longrightarrow>
            (\<exists>rp. rp \<noteq> Ok \<and> r = Inl (Exit 1) \<and> artifact w' = Some a
               \<and> since w w' = [Print (CreatingDeployment app_id branch_id),
                                Remote (CreateDeployment app_id branch_id) rp,
                                Print ErrorCreatingDeployment])
          \<or> (upload_failed (put_reply w) \<and> r = Inl (Exit 1) \<and> artifact w' = Some a
               \<and> since w w' = [Print (CreatingDeployment app_id branch_id),
                                Remote (CreateDeployment app_id branch_id) Ok,
                                Print (CreatedJob (snd (slot w))),
                                Print (UploadingArtifacts (fst (slot w))),
                                Put (fst (slot w)) (put_reply w),
                                Print ErrorUploadingFile])
          \<or> (\<exists>rp. \<not> upload_failed (put_reply w) \<and> rp \<noteq> Ok \<and> r = Inl (Exit 1)
               \<and> artifact w' = Some a
               \<and> since w w' = [Print (CreatingDeployment app_id branch_id),
                                Remote (CreateDeployment app_id branch_id) Ok,
                                Print (CreatedJob (snd (slot w))),
                                Print (UploadingArtifacts (fst (slot w))),
                                Put (fst (slot w)) (put_reply w),
                                Print (StartingDeployment (snd (slot w))),
                                Remote (StartDeployment app_id branch_id (snd (slot w))) rp,
                                Print ErrorStartingDeployment])
          \<or> (\<not> upload_failed (put_reply w) \<and> r = Inr () \<and> artifact w' = None
               \<and> since w w' = [Print (CreatingDeployment app_id branch_id),
                                Remote (CreateDeployment app_id branch_id) Ok,
                                Print (CreatedJob (snd (slot w))),
                                Print (UploadingArtifacts (fst (slot w))),
                                Put (fst (slot w)) (put_reply w),
                                Print (StartingDeployment (snd (slot w))),
                                Remote (StartDeployment app_id branch_id (snd (slot w))) Ok,
                                Print (StartedDeployment (snd (slot w))),
                                Print (DeploymentCompleted (snd (slot w)))])))
    \<and> (\<forall>u rep. Put u rep \<in> set (since w w') \<and> upload_failed rep \<longrightarrow>
          r = Inl (Exit 1)
          \<and> (\<forall>a b j rp. Remote (StartDeployment a b j) rp \<notin> set (since w w'))
          \<and> artifact w' \<noteq> None)"
  using run
proof (cases rule: deploy_run)
  case invalid
  then show ?thesis by simp
next
  case (unpacked a)
  then show ?thesis by simp
next
  case (refused a rp)
  have s: "since w w' = [Print (CreatingDeployment app_id branch_id),
                         Remote (CreateDeployment app_id branch_id) rp,
                         Print ErrorCreatingDeployment]"
    using refused(6) by simp
  from refused(1-5) refused(6) show ?thesis unfolding s by simp
next
  case (upload a)
  have s: "since w w' = [Print (CreatingDeployment app_id branch_id),
                         Remote (CreateDeployment app_id branch_id) Ok,
                         Print (CreatedJob (snd (slot w))),
                         Print (UploadingArtifacts (fst (slot w))),
                         Put (fst (slot w)) (put_reply w),
                         Print ErrorUploadingFile]"
    using upload(6) by simp
  from upload show ?thesis unfolding s by simp
next
  case (start a rp)
  have s: "since w w' = [Print (CreatingDeployment app_id branch_id),
                         Remote (CreateDeployment app_id branch_id) Ok,
                         Print (CreatedJob (snd (slot w))),
                         Print (UploadingArtifacts (fst (slot w))),
                         Put (fst (slot w)) (put_reply w),
                         Print (StartingDeployment (snd (slot w))),
                         Remote (StartDeployment app_id branch_id (snd (slot w))) rp,
                         Print ErrorStartingDeployment]"
    using start(7) by simp
  from start show ?thesis unfolding s by simp
next
  case (completed a)
  have s: "since w w' = [Print (CreatingDeployment app_id branch_id),
                         Remote (CreateDeployment app_id branch_id) Ok,
                         Print (CreatedJob (snd (slot w))),
                         Print (UploadingArtifacts (fst (slot w))),
                         Put (fst (slot w)) (put_reply w),
                         Print (StartingDeployment (snd (slot w))),
                         Remote (StartDeployment app_id branch_id (snd (slot w))) Ok,
                         Print (StartedDeployment (snd (slot w))),
                         Print (DeploymentCompleted (snd (slot w)))]"
    using completed(6) by simp
  from completed show ?thesis unfolding s by simp
qed

theorem deploy_abort_sequence_witness:
  "deploy ''app123'' ''main'' [''dist''] (sample_world\<lparr>put_reply := Status 403\<rparr>)
     = (Inl (Exit 1),
        \<lparr>branches = [''main''], faults = [], slot = (''https://upload'', ''job-1''),
         put_reply = Status 403, fs = sample_fs,
         artifact = Some [([''index.html''], ''<html></html>''),
                          ([''css'', ''site.css''], ''body {}'')],
         trace = [Print (CreatingDeployment ''app123'' ''main''),
                  Remote (CreateDeployment ''app123'' ''main'') Ok,
                  Print (CreatedJob ''job-1''),
                  Print (UploadingArtifacts ''https://upload''),
                  Put ''https://upload'' (Status 403),
                  Print ErrorUploadingFile]\<rparr>)
   \<and> upload_failed (Status 403)
   \<and> (\<forall>a b j rp. Remote (StartDeployment a b j) rp \<notin>
          set [Print (CreatingDeployment ''app123'' ''main''),
               Remote (CreateDeployment ''app123'' ''main'') Ok,
               Print (CreatedJob ''job-1''),
               Print (UploadingArtifacts ''https://upload''),
               Put ''https://upload'' (Status 403),
               Print ErrorUploadingFile])
   \<and> validate_html_directory sample_fs [''dist'', ''css''] \<noteq> Inr ()
   \<and> deploy ''app123'' ''main'' [''dist'', ''css''] sample_world
     = (Inl (Exit 1), sample_world\<lparr>trace := [Print ErrorDuringDeployment]\<rparr>)"
proof -
  have run: "deploy ''app123'' ''main'' [''dist''] (sample_world\<lparr>put_reply := Status 403\<rparr>)
     = (Inl (Exit 1),
        \<lparr>branches = [''main''], faults = [], slot = (''https://upload'', ''job-1''),
         put_reply = Status 403, fs = sample_fs,
         artifact = Some [([''index.html''], ''<html></html>''),
                          ([''css'', ''site.css''], ''body {}'')],
         trace = [Print (CreatingDeployment ''app123'' ''main''),
                  Remote (CreateDeployment ''app123'' ''main'') Ok,
                  Print (CreatedJob ''job-1''),
                  Print (UploadingArtifacts ''https://upload''),
                  Put ''https://upload'' (Status 403),
                  Print ErrorUploadingFile]\<rparr>)"
    by code_simp
  have failed: "upload_failed (Status 403)"
    by (simp add: raise_for_status_def)
  have invalid: "validate_html_directory sample_fs [''dist'', ''css''] \<noteq> Inr ()"
    by (simp add: validate_html_directory_def isdir_def listdir_def endswith_def suffix_def
          sample_fs_def)
  obtain r w' where run2: "deploy ''app123'' ''main'' [''dist'', ''css''] sample_world = (r, w')"
    by (cases "deploy ''app123'' ''main'' [''dist'', ''css''] sample_world")
  from deploy_abort_sequence [OF run2] invalid
  have "r = Inl (Exit 1)" "trace w' = trace sample_world @ [Print ErrorDuringDeployment]"
    by (simp_all add: sample_world_def)
  moreover have "w' = sample_world\<lparr>trace := trace w'\<rparr>"
    using run2 invalid
    by (auto simp add: deploy_def deploy_body_def handler_def print_def emit_def sample_world_def
          split: sum.splits)
  ultimately have second: "deploy ''app123'' ''main'' [''dist'', ''css''] sample_world
     = (Inl (Exit 1), sample_world\<lparr>trace := [Print ErrorDuringDeployment]\<rparr>)"
    using run2 by (simp add: sample_world_def)
  from deploy_abort_sequence [OF run] failed run have
    "\<forall>a b j rp. Remote (StartDeployment a b j) rp \<notin>
          set [Print (CreatingDeployment ''app123'' ''main''),
               Remote (CreateDeployment ''app123'' ''main'') Ok,
               Print (CreatedJob ''job-1''),
               Print (UploadingArtifacts ''https://upload''),
               Put ''https://upload'' (Status 403),
               Print ErrorUploadingFile]"
    by simp
  with run failed invalid second show ?thesis by blast
qed

subsection \<open>Service errors\<close>

lemma halts_append_clean:
  "\<forall>e \<in> set xs. \<not> fatal_event e \<Longrightarrow> halts_after_fatal (xs @ ys) = halts_after_fatal ys"
  by (induction xs) auto

lemma clean_halts: "\<forall>e \<in> set xs. \<not> fatal_event e \<Longrightarrow> halts_after_fatal xs"
  by (induction xs) auto

lemma clean_emit: "clean w \<Longrightarrow> \<not> fatal_event e \<Longrightarrow> clean (emit e w)"
  by (simp add: clean_def)

lemma clean_print [simp]: "clean (print m w) = clean w"
  by (auto simp add: clean_def)

lemma clean_prints [simp]: "clean (prints ms w) = clean w"
  by (induction ms arbitrary: w) auto

lemma clean_prompt [simp]: "clean (emit (Prompt p) w) = clean w"
  by (auto simp add: clean_def)

lemma clean_put [simp]: "clean (emit (Put u rep) w) = clean w"
  by (auto simp add: clean_def)

lemma clean_artifact [simp]: "clean (w\<lparr>artifact := a\<rparr>) = clean w"
  by (simp add: clean_def)

lemma settled_clean: "clean w \<Longrightarrow> exit_status a = 1 \<Longrightarrow> settled (Inl a) w"
  by (simp add: settled_def clean_def clean_halts)

lemma settled_Inr: "clean w \<Longrightarrow> settled (Inr v) w"
  by (simp add: settled_def clean_def clean_halts)

lemma clean_trace_halts: "clean w \<Longrightarrow> halts_after_fatal (trace w)"
  by (simp add: clean_def clean_halts)

text \<open>One remote call from a clean world: the new world is clean unless the call
  was a service error, and then the trace ends with it; the diagnostic may follow.\<close>

lemma remote_clean:
  assumes "remote c w = (rp, w')" and "clean w"
  shows "clean w' \<longleftrightarrow> \<not> fatal_event (Remote c rp)"
    and "diagnostic c = None \<Longrightarrow> halts_after_fatal (trace w')"
    and "diagnostic c = Some m \<Longrightarrow> halts_after_fatal (trace (print m w'))"
  using remote_result [OF assms(1)] assms(2)
  by (auto simp add: clean_def halts_append_clean)

lemma branch_exists_settled:
  assumes "branch_exists app_id b w = (r, w')" and "clean w"
  shows "settled r w'"
proof -
  obtain rp w1 where rem: "remote (GetBranch app_id b) w = (rp, w1)"
    by (cases "remote (GetBranch app_id b) w")
  from remote_clean(1,2) [OF rem assms(2)] assms(1) rem show ?thesis
    by (cases rp) (auto simp add: branch_exists_def settled_def)
qed

lemma create_branch_clean:
  assumes "create_branch app_id b w = (ok, w')" and "clean w"
  shows "clean w'"
proof -
  obtain rp w1 where rem: "remote (CreateBranch app_id b) w = (rp, w1)"
    by (cases "remote (CreateBranch app_id b) w")
  from remote_clean(1) [OF rem assms(2)] assms(1) rem show ?thesis
    by (cases rp) (auto simp add: create_branch_def)
qed

lemma list_branches_settled:
  assumes "list_branches app_id w = (r, w')" and "clean w"
  shows "settled r w'"
proof -
  obtain rp w1 where rem: "remote (ListBranches app_id) w = (rp, w1)"
    by (cases "remote (ListBranches app_id) w")
  from remote_clean(1) [OF rem assms(2)]
    remote_clean(3) [OF rem assms(2), of ErrorListingBranches] assms(1) rem
  show ?thesis
    by (cases rp) (auto simp add: list_branches_def settled_def clean_trace_halts)
qed

lemma create_deployment_settled:
  assumes "create_deployment app_id b w = (r, w')" and "clean w"
  shows "settled r w'"
proof -
  obtain rp w1 where rem: "remote (CreateDeployment app_id b) w = (rp, w1)"
    by (cases "remote (CreateDeployment app_id b) w")
  from remote_clean(1) [OF rem assms(2)]
    remote_clean(3) [OF rem assms(2), of ErrorCreatingDeployment] assms(1) rem
  show ?thesis
    by (cases rp) (auto simp add: create_deployment_def settled_def clean_trace_halts)
qed

lemma start_deployment_settled:
  assumes "start_deployment app_id b j w = (r, w')" and "clean w"
  shows "settled r w'"
proof -
  obtain rp w1 where rem: "remote (StartDeployment app_id b j) w = (rp, w1)"
    by (cases "remote (StartDeployment app_id b j) w")
  from remote_clean(1) [OF rem assms(2)]
    remote_clean(3) [OF rem assms(2), of ErrorStartingDeployment] assms(1) rem
  show ?thesis
    by (cases rp) (auto simp add: start_deployment_def settled_def clean_trace_halts)
qed

text \<open>
  A proof rule for the reconciler: \<open>P\<close> holds of the worlds it passes through,
  \<open>Q\<close> of the result and the world it stops in.
\<close>

lemma operator_loop_rule:
  assumes prompt: "\<And>w p. P w \<Longrightarrow> P (emit (Prompt p) w)"
    and be: "\<And>a b w r w'. P w \<Longrightarrow> branch_exists a b w = (r, w') \<Longrightarrow>
               (case r of Inl a \<Rightarrow> Q (Inl a) w' | Inr found \<Rightarrow> P w')"
    and cb: "\<And>a b w ok w'. P w \<Longrightarrow> create_branch a b w = (ok, w') \<Longrightarrow> P w'"
    and ret: "\<And>b w. P w \<Longrightarrow> Q (Inr b) w"
    and eof: "\<And>w. P w \<Longrightarrow> Q (Inl (Raised EOFError)) w"
  shows "P w \<Longrightarrow> operator_loop app_id w ins = (r, w', ins') \<Longrightarrow> Q r w'"
proof (induction app_id w ins rule: operator_loop.induct)
  case (1 app_id w)
  then show ?case using prompt eof by auto
next
  case (2 app_id w line rest)
  obtain r1 w1 where bex: "branch_exists app_id (strip line) (emit (Prompt AskBranchName) w) = (r1, w1)"
    by (cases "branch_exists app_id (strip line) (emit (Prompt AskBranchName) w)")
  have p0: "P (emit (Prompt AskBranchName) w)" using "2.prems"(1) by (rule prompt)
  note f1 = be [OF p0 bex]
  note run = "2.prems"(2)
  show ?case
  proof (cases r1)
    case (Inl a)
    with run bex f1 show ?thesis by (auto simp add: Let_def)
  next
    case (Inr found)
    with f1 have p1: "P w1" by simp
    show ?thesis
    proof (cases found)
      case True
      with run bex p1 Inr ret show ?thesis by (auto simp add: Let_def)
    next
      case False
      show ?thesis
      proof (cases rest)
        case Nil
        with run bex p1 Inr False prompt eof show ?thesis by (auto simp add: Let_def)
      next
        case (Cons answer rest')
        let ?w2 = "emit (Prompt (AskCreateBranch (strip line))) w1"
        have p2: "P ?w2" using p1 by (rule prompt)
        show ?thesis
        proof (cases "strip (lower answer) = ''y''")
          case yes: True
          obtain ok w3 where cbr: "create_branch app_id (strip line) ?w2 = (ok, w3)"
            by (cases "create_branch app_id (strip line) ?w2")
          have p3: "P w3" using p2 cbr by (rule cb)
          show ?thesis
          proof (cases ok)
            case True
            with run bex Inr False Cons yes cbr p3 ret show ?thesis
              by (auto simp add: Let_def)
          next
            case nok: False
            have rec: "operator_loop app_id w3 rest' = (r, w', ins')"
              using run bex Inr False Cons yes cbr nok by (simp add: Let_def)
            show ?thesis
              using "2.IH"(1) [OF refl bex [symmetric] _ _ Cons refl yes cbr [symmetric] _ p3 rec]
                Inr False nok by simp
          qed
        next
          case no: False
          have rec: "operator_loop app_id ?w2 rest' = (r, w', ins')"
            using run bex Inr False Cons no by (simp add: Let_def)
          show ?thesis
            using "2.IH"(2) [OF refl bex [symmetric] _ _ Cons refl no p2 rec]
              Inr False by simp
        qed
      qed
    qed
  qed
qed

lemma get_deployment_branch_rule:
  assumes prompt: "\<And>w p. P w \<Longrightarrow> P (emit (Prompt p) w)"
    and pr: "\<And>w m. P w \<Longrightarrow> P (print m w)"
    and be: "\<And>a b w r w'. P w \<Longrightarrow> branch_exists a b w = (r, w') \<Longrightarrow>
               (case r of Inl a \<Rightarrow> Q (Inl a) w' | Inr found \<Rightarrow> P w')"
    and cb: "\<And>a b w ok w'. P w \<Longrightarrow> create_branch a b w = (ok, w') \<Longrightarrow> P w'"
    and lb: "\<And>a w r w'. P w \<Longrightarrow> list_branches a w = (r, w') \<Longrightarrow>
               (case r of Inl a \<Rightarrow> Q (Inl a) w' | Inr bs \<Rightarrow> P w')"
    and ret: "\<And>b w. P w \<Longrightarrow> Q (Inr b) w"
    and eof: "\<And>w. P w \<Longrightarrow> Q (Inl (Raised EOFError)) w"
    and start: "P w"
    and run: "get_deployment_branch app_id cfg git w ins = (r, w', ins')"
  shows "Q r w'"
proof -
  have prs: "P (prints ms v)" if "P v" for ms v
    using that by (induction ms arbitrary: v) (auto intro: pr)
  have toc: "Q r w'" if "P v" "try_operator_choice app_id v i = (r, w', ins')" for v i
  proof -
    obtain r1 w1 where l: "list_branches app_id (print NoValidBranchFound v) = (r1, w1)"
      by (cases "list_branches app_id (print NoValidBranchFound v)")
    note f = lb [OF pr [OF that(1)] l]
    show ?thesis
    proof (cases r1)
      case (Inl a)
      with that(2) l f show ?thesis by (auto simp add: try_operator_choice_def)
    next
      case (Inr bs)
      with that(2) l have ol: "operator_loop app_id (prints (map BranchLine bs) w1) i = (r, w', ins')"
        by (simp add: try_operator_choice_def)
      from f Inr have pp: "P (prints (map BranchLine bs) w1)" by (simp add: prs)
      show ?thesis
        by (rule operator_loop_rule [where P = P and Q = Q, OF _ _ _ _ _ pp ol])
           (erule prompt be cb ret eof, assumption?)+
    qed
  qed
  have tvc: "Q r w'" if pv: "P v" and tv: "try_version_control app_id git v ins = (r, w', ins')" for v
  proof (cases "falsy git")
    case True
    with tv have "try_operator_choice app_id v ins = (r, w', ins')"
      by (cases git) (auto simp add: try_version_control_def)
    with pv show ?thesis by (rule toc)
  next
    case False
    then obtain g where g: "git = Some g" "g \<noteq> ''''" by (cases git) auto
    obtain r1 w1 where bex: "branch_exists app_id g v = (r1, w1)"
      by (cases "branch_exists app_id g v")
    note f1 = be [OF pv bex]
    let ?w2 = "emit (Prompt (AskCreateGitBranch g)) (print (BranchDoesNotExist g) w1)"
    show ?thesis
    proof (cases r1)
      case (Inl a)
      with tv g bex f1 show ?thesis by (auto simp add: try_version_control_def)
    next
      case (Inr found)
      with f1 have p1: "P w1" by simp
      then have p2: "P ?w2" by (intro prompt pr)
      show ?thesis
      proof (cases found)
        case True
        with tv g bex p1 Inr ret show ?thesis by (auto simp add: try_version_control_def)
      next
        case False
        show ?thesis
        proof (cases ins)
          case Nil
          with tv g bex Inr False p2 eof show ?thesis
            by (auto simp add: try_version_control_def Let_def)
        next
          case (Cons answer rest)
          show ?thesis
          proof (cases "strip (lower answer) = ''y''")
            case yes: True
            obtain ok w3 where cbr: "create_branch app_id g ?w2 = (ok, w3)"
              by (cases "create_branch app_id g ?w2")
            have p3: "P w3" using p2 cbr by (rule cb)
            show ?thesis
            proof (cases ok)
              case True
              with tv g bex Inr False Cons yes cbr p3 ret show ?thesis
                by (auto simp add: try_version_control_def Let_def)
            next
              case nok: False
              with tv g bex Inr False Cons yes cbr
              have "try_operator_choice app_id w3 rest = (r, w', ins')"
                by (simp add: try_version_control_def Let_def)
              with p3 show ?thesis by (rule toc)
            qed
          next
            case no: False
            with tv g bex Inr False Cons
            have "try_operator_choice app_id ?w2 rest = (r, w', ins')"
              by (simp add: try_version_control_def Let_def)
            with p2 show ?thesis by (rule toc)
          qed
        qed
      qed
    qed
  qed
  show ?thesis
  proof (cases "falsy cfg")
    case True
    with run have "try_version_control app_id git w ins = (r, w', ins')"
      by (cases cfg) (auto simp add: get_deployment_branch_def)
    with start show ?thesis by (rule tvc)
  next
    case False
    then obtain c where c: "cfg = Some c" "c \<noteq> ''''" by (cases cfg) auto
    obtain r1 w1 where bex: "branch_exists app_id c w = (r1, w1)"
      by (cases "branch_exists app_id c w")
    note f1 = be [OF start bex]
    show ?thesis
    proof (cases r1)
      case (Inl a)
      with run c bex f1 show ?thesis by (auto simp add: get_deployment_branch_def)
    next
      case (Inr found)
      with f1 have p1: "P w1" by simp
      show ?thesis
      proof (cases found)
        case True
        with run c bex p1 Inr ret show ?thesis by (auto simp add: get_deployment_branch_def)
      next
        case False
        with run c bex Inr
        have "try_version_control app_id git (print (WarnConfiguredBranchMissing c) w1) ins
                = (r, w', ins')"
          by (simp add: get_deployment_branch_def)
        with pr [OF p1] show ?thesis by (rule tvc)
      qed
    qed
  qed
qed

lemma get_deployment_branch_settled:
  assumes "clean w" and "get_deployment_branch app_id cfg git w ins = (r, w', ins')"
  shows "settled r w'"
proof (rule get_deployment_branch_rule [where P = clean and Q = settled, OF _ _ _ _ _ _ _ assms])
  show "\<And>w p. clean w \<Longrightarrow> clean (emit (Prompt p) w)" by simp
  show "\<And>w m. clean w \<Longrightarrow> clean (print m w)" by simp
  show "\<And>a b w r w'. clean w \<Longrightarrow> branch_exists a b w = (r, w') \<Longrightarrow>
          (case r of Inl a \<Rightarrow> settled (Inl a) w' | Inr found \<Rightarrow> clean w')"
    by (drule (1) branch_exists_settled [rotated]) (auto simp add: settled_def split: sum.splits)
  show "\<And>a b w ok w'. clean w \<Longrightarrow> create_branch a b w = (ok, w') \<Longrightarrow> clean w'"
    by (rule create_branch_clean)
  show "\<And>a w r w'. clean w \<Longrightarrow> list_branches a w = (r, w') \<Longrightarrow>
          (case r of Inl a \<Rightarrow> settled (Inl a) w' | Inr bs \<Rightarrow> clean w')"
    by (drule (1) list_branches_settled [rotated]) (auto simp add: settled_def split: sum.splits)
  show "\<And>b w. clean w \<Longrightarrow> settled (Inr b) w" by (rule settled_Inr)
  show "\<And>w. clean w \<Longrightarrow> settled (Inl (Raised EOFError)) w" by (simp add: settled_clean)
qed

lemma upload_file_to_url_clean:
  assumes "upload_file_to_url u w = (r, w')" and "clean w"
  shows "clean w' \<and> (\<forall>a. r = Inl a \<longrightarrow> exit_status a = 1)"
  using assms
  by (auto simp add: upload_file_to_url_def Let_def
        split: option.splits upload_reply.splits if_splits)

text \<open>The body of \<^verbatim>\<open>deploy\<close>: an exception escapes it from a clean world only.\<close>

lemma deploy_body_settled:
  assumes cl: "clean w" and run: "deploy_body app_id branch_id directory w = (r, w')"
  shows "settled r w' \<and> (\<forall>e. r = Inl (Raised e) \<longrightarrow> clean w')"
proof (cases "validate_html_directory (fs w) directory")
  case (Inl e)
  with run cl show ?thesis by (auto simp add: deploy_body_def settled_clean)
next
  case valid: (Inr u)
  obtain a ok where z: "zip_directory (fs w) directory = (a, ok)"
    by (cases "zip_directory (fs w) directory")
  show ?thesis
  proof (cases ok)
    case False
    with run valid cl z show ?thesis by (auto simp add: deploy_body_def settled_clean)
  next
    case True
    with z have Some: "zip_directory (fs w) directory = (a, True)" by simp
    let ?w0 = "print (CreatingDeployment app_id branch_id) (w\<lparr>artifact := Some a\<rparr>)"
    have c0: "clean ?w0" using cl by simp
    obtain r1 w1 where cd: "create_deployment app_id branch_id ?w0 = (r1, w1)"
      by (cases "create_deployment app_id branch_id ?w0")
    note s1 = create_deployment_settled [OF cd c0]
    have ex1: "r1 = Inl x \<Longrightarrow> x = Exit 1" for x
      using cd by (auto simp add: create_deployment_def split: prod.splits reply.splits)
    show ?thesis
    proof (cases r1)
      case (Inl x)
      with run valid Some cd have "r = Inl x" "w' = w1"
        by (simp_all add: deploy_body_def)
      with s1 Inl ex1 show ?thesis by (auto simp add: settled_def)
    next
      case (Inr sl)
      obtain upload_url job_id where sl: "sl = (upload_url, job_id)" by (cases sl)
      let ?w1' = "prints [CreatedJob job_id, UploadingArtifacts upload_url] w1"
      from s1 Inr have c1: "clean ?w1'" by (simp add: settled_def)
      obtain r2 w2 where up: "upload_file_to_url upload_url ?w1' = (r2, w2)"
        by (cases "upload_file_to_url upload_url ?w1'")
      note s2 = upload_file_to_url_clean [OF up c1]
      show ?thesis
      proof (cases r2)
        case (Inl x)
        with run valid Some cd Inr sl up have "r = Inl x" "w' = w2"
          by (simp_all add: deploy_body_def)
        with s2 Inl show ?thesis by (simp add: settled_clean)
      next
        case resp: (Inr response)
        let ?w2' = "print (StartingDeployment job_id) w2"
        from s2 have c2: "clean ?w2'" by simp
        obtain r3 w3 where sd: "start_deployment app_id branch_id job_id ?w2' = (r3, w3)"
          by (cases "start_deployment app_id branch_id job_id ?w2'")
        note s3 = start_deployment_settled [OF sd c2]
        have ex3: "r3 = Inl x \<Longrightarrow> x = Exit 1" for x
          using sd by (auto simp add: start_deployment_def split: prod.splits reply.splits)
        show ?thesis
        proof (cases r3)
          case (Inl x)
          with run valid Some cd Inr sl up resp sd have "r = Inl x" "w' = w3"
            by (simp_all add: deploy_body_def)
          with s3 Inl ex3 show ?thesis by (auto simp add: settled_def)
        next
          case fin: (Inr u')
          with run valid Some cd Inr sl up resp sd
          have "r = Inr ()"
            "w' = print (DeploymentCompleted job_id)
                    ((print (StartedDeployment job_id) w3)\<lparr>artifact := None\<rparr>)"
            by (simp_all add: deploy_body_def)
          moreover from s3 fin have "clean w3" by (simp add: settled_def)
          ultimately show ?thesis by (simp add: settled_Inr)
        qed
      qed
    qed
  qed
qed

lemma deploy_settled:
  assumes cl: "clean w" and run: "deploy app_id branch_id directory w = (r, w')"
  shows "settled r w'"
proof -
  obtain r0 w0 where body: "deploy_body app_id branch_id directory w = (r0, w0)"
    by (cases "deploy_body app_id branch_id directory w")
  note s = deploy_body_settled [OF cl body]
  show ?thesis
  proof (cases "\<exists>e. r0 = Inl (Raised e)")
    case True
    then obtain e where e: "r0 = Inl (Raised e)" ..
    with run body have "r = Inl (Exit 1)" "w' = print ErrorDuringDeployment w0"
      by (simp_all add: deploy_def handler_def)
    with s e show ?thesis by (simp add: settled_clean)
  next
    case False
    with run body have "r = r0" "w' = w0"
      by (auto simp add: deploy_def handler_def split: sum.splits abort.splits)
    with s show ?thesis by simp
  qed
qed

lemma main_deploy_settled:
  assumes cl: "clean w"
    and run: "main_deploy app_name app_id app_info args_branch git_branch w ins = (r, w', ins')"
  shows "settled r w'"
proof -
  define cfg where "cfg = (if falsy args_branch then map_of app_info ''default_branch''
                           else args_branch)"
  obtain r1 w1 ins1 where g: "get_deployment_branch app_id cfg git_branch w ins = (r1, w1, ins1)"
    by (cases "get_deployment_branch app_id cfg git_branch w ins")
  note s1 = get_deployment_branch_settled [OF cl g]
  show ?thesis
  proof (cases r1)
    case (Inl a)
    with run g have "r = Inl a" "w' = w1"
      by (simp_all add: main_deploy_def Let_def cfg_def)
    with s1 Inl show ?thesis by (simp add: settled_def)
  next
    case (Inr branch_id)
    with s1 have c1: "clean w1" by (simp add: settled_def)
    show ?thesis
    proof (cases "\<exists>d. map_of app_info ''build_directory'' = Some d \<and> branch_id \<noteq> '''' \<and> d \<noteq> ''''")
      case False
      with run g Inr have "r = Inl (Exit 1)" "w' = print BranchAndBuildDirRequired w1"
        by (auto simp add: main_deploy_def Let_def cfg_def split: option.splits if_splits)
      with c1 show ?thesis by (simp add: settled_clean)
    next
      case True
      then obtain d where d: "map_of app_info ''build_directory'' = Some d"
        "branch_id \<noteq> ''''" "d \<noteq> ''''" by blast
      let ?w1' = "print (Deploying app_name branch_id) w1"
      obtain r2 w2 where dp: "deploy app_id branch_id (to_path d) ?w1' = (r2, w2)"
        by (cases "deploy app_id branch_id (to_path d) ?w1'")
      from c1 have "clean ?w1'" by simp
      note s2 = deploy_settled [OF this dp]
      show ?thesis
      proof (cases r2)
        case (Inl a)
        with run g Inr d dp have "r = Inl a" "w' = w2"
          by (simp_all add: main_deploy_def Let_def cfg_def)
        with s2 Inl show ?thesis by (simp add: settled_def)
      next
        case fin: (Inr u)
        with run g Inr d dp have "r = Inr ()" "w' = print DeploymentActionCompleted w2"
          by (simp_all add: main_deploy_def Let_def cfg_def)
        moreover from s2 fin have "clean w2" by (simp add: settled_def)
        ultimately show ?thesis by (simp add: settled_Inr)
      qed
    qed
  qed
qed

lemma main_action_settled:
  assumes cl: "clean w"
    and run: "main_action act app_name app_id app_info args_branch git_branch w ins = (r, w', ins')"
  shows "settled r w'"
proof (cases act)
  case DeployAction
  with run have "main_deploy app_name app_id app_info args_branch git_branch w ins = (r, w', ins')"
    by (simp add: main_action_def)
  from main_deploy_settled [OF cl this] show ?thesis .
next
  case ListBranchesAction
  obtain r1 w1 where l: "list_branches app_id w = (r1, w1)"
    by (cases "list_branches app_id w")
  note s1 = list_branches_settled [OF l cl]
  show ?thesis
  proof (cases r1)
    case (Inl a)
    with run l ListBranchesAction have "r = Inl a" "w' = w1"
      by (simp_all add: main_action_def main_list_branches_def)
    with s1 Inl show ?thesis by (simp add: settled_def)
  next
    case (Inr bs)
    with run l ListBranchesAction
    have "r = Inr ()" "w' = prints (AvailableBranchesFor app_name # map BranchLine bs) w1"
      by (simp_all add: main_action_def main_list_branches_def)
    moreover from s1 Inr have "clean w1" by (simp add: settled_def)
    ultimately show ?thesis using clean_prints [of "AvailableBranchesFor app_name # map BranchLine bs" w1]
      by (simp only: settled_Inr)
  qed
qed

lemma is_print_not_fatal: "is_print e \<Longrightarrow> \<not> fatal_event e"
  by (cases e) auto

lemma stops_after_prints: "stops_after e es \<Longrightarrow> list_all is_print es"
  by (cases e) (auto split: option.splits)

lemma halts_after_fatal_at:
  "halts_after_fatal t \<Longrightarrow> t = pre @ e # post \<Longrightarrow> fatal_event e \<Longrightarrow> stops_after e post"
proof (induction pre arbitrary: t)
  case Nil
  then show ?case by simp
next
  case (Cons x pre)
  show ?case
  proof (cases "fatal_event x")
    case True
    with Cons.prems have "stops_after x (pre @ e # post)" by simp
    then have "list_all is_print (pre @ e # post)" by (rule stops_after_prints)
    then have "is_print e" by simp
    with is_print_not_fatal Cons.prems(3) show ?thesis by blast
  next
    case False
    with Cons.prems have "halts_after_fatal (pre @ e # post)" by simp
    from Cons.IH [OF this refl Cons.prems(3)] show ?thesis .
  qed
qed

text \<open>
  Claim C3, as stated, at a \<^verbatim>\<open>createBranch\<close> answered with a service error: the
  version-control branch \<^verbatim>\<open>feature-x\<close> is absent, the operator agrees to create it
  and the service rejects the call with a \<^verbatim>\<open>ClientError\<close> that is no not-found.
  \<^verbatim>\<open>create_branch\<close> prints the error and answers \<^verbatim>\<open>False\<close>; the process does not
  terminate: it lists the branches, prompts the operator, calls \<^verbatim>\<open>getBranch\<close> again
  and returns the branch \<^verbatim>\<open>main\<close>.
\<close>

theorem create_branch_error_counterexample:
  "get_deployment_branch ''app123'' None (Some ''feature-x'')
      (sample_world\<lparr>faults := [False, True]\<rparr>) [''y'', ''main'']
    = (Inr ''main'',
       \<lparr>branches = [''main''], faults = [], slot = (''https://upload'', ''job-1''),
        put_reply = Status 200, fs = sample_fs, artifact = None,
        trace = [Remote (GetBranch ''app123'' ''feature-x'') NotFound,
                 Print (BranchDoesNotExist ''feature-x''),
                 Prompt (AskCreateGitBranch ''feature-x''),
                 Remote (CreateBranch ''app123'' ''feature-x'') Failed,
                 Print ErrorCreatingBranch,
                 Print NoValidBranchFound,
                 Remote (ListBranches ''app123'') Ok,
                 Print (BranchLine ''main''),
                 Prompt AskBranchName,
                 Remote (GetBranch ''app123'' ''main'') Ok]\<rparr>,
       [])"
  by code_simp

text \<open>
  Claim C3, amended: every service error of \<^verbatim>\<open>createDeployment\<close>, \<^verbatim>\<open>startDeployment\<close>,
  \<^verbatim>\<open>listBranches\<close> and \<^verbatim>\<open>getBranch\<close> (for \<^verbatim>\<open>getBranch\<close>, one that is not the
  reconciler's expected branch-not-found) is fatal. In every run of an action of
  \<^verbatim>\<open>main\<close> (\<^verbatim>\<open>list-branches\<close> or \<^verbatim>\<open>deploy\<close>) that starts in a world without an earlier
  service error, wherever such an error stands in the trace, only prints follow it:
  no remote call is made after it, repeated or not, no prompt is shown and no upload
  started; the process ends with exit status 1; and for \<^verbatim>\<open>createDeployment\<close>,
  \<^verbatim>\<open>startDeployment\<close> and \<^verbatim>\<open>listBranches\<close> what follows is exactly the diagnostic of
  the helper. The errors of \<^verbatim>\<open>createBranch\<close> are not among the fatal ones.
\<close>

theorem service_error_fatal:
  assumes "clean w"
    and "main_action act app_name app_id app_info args_branch git_branch w ins = (r, w', ins')"
    and "trace w' = pre @ Remote c rp # post"
    and "fatal_event (Remote c rp)"
  shows "list_all is_print post
       \<and> (\<forall>m. diagnostic c = Some m \<longrightarrow> post = [Print m])
       \<and> (\<exists>a. r = Inl a \<and> exit_status a = 1)"
proof -
  note s = main_action_settled [OF assms(1,2)]
  then have "halts_after_fatal (trace w')" by (simp add: settled_def)
  from halts_after_fatal_at [OF this assms(3,4)] have st: "stops_after (Remote c rp) post" .
  then have p1: "list_all is_print post" by (rule stops_after_prints)
  from st have p2: "\<forall>m. diagnostic c = Some m \<longrightarrow> post = [Print m]" by auto
  from assms(3,4) have "\<not> clean w'" by (auto simp add: clean_def)
  with s have "\<exists>a. r = Inl a \<and> exit_status a = 1"
    by (cases r) (simp_all add: settled_def)
  with p1 p2 show ?thesis by blast
qed

theorem service_error_fatal_witness:
  "main_action ListBranchesAction ''site'' ''app123''
      [(''app_id'', ''app123''), (''build_directory'', ''dist'')]
      None None (sample_world\<lparr>faults := [True]\<rparr>) []
    = (Inl (Exit 1),
       \<lparr>branches = [''main''], faults = [], slot = (''https://upload'', ''job-1''),
        put_reply = Status 200, fs = sample_fs, artifact = None,
        trace = [Remote (ListBranches ''app123'') Failed,
                 Print ErrorListingBranches]\<rparr>,
       [])
   \<and> main_action DeployAction ''site'' ''app123''
      [(''app_id'', ''app123''), (''build_directory'', ''dist'')]
      None (Some ''feature-x'') (sample_world\<lparr>faults := [False, False, True]\<rparr>) [''y'']
    = (Inl (Exit 1),
       \<lparr>branches = [''main'', ''feature-x''], faults = [],
        slot = (''https://upload'', ''job-1''), put_reply = Status 200, fs = sample_fs,
        artifact = Some [([''index.html''], ''<html></html>''),
                         ([''css'', ''site.css''], ''body {}'')],
        trace = [Remote (GetBranch ''app123'' ''feature-x'') NotFound,
                 Print (BranchDoesNotExist ''feature-x''),
                 Prompt (AskCreateGitBranch ''feature-x''),
                 Remote (CreateBranch ''app123'' ''feature-x'') Ok,
                 Print (CreatedNewBranch ''feature-x''),
                 Print (Deploying ''site'' ''feature-x''),
                 Print (CreatingDeployment ''app123'' ''feature-x''),
                 Remote (CreateDeployment ''app123'' ''feature-x'') Failed,
                 Print ErrorCreatingDeployment]\<rparr>,
       [])
   \<and> diagnostic (ListBranches ''app123'') = Some ErrorListingBranches
   \<and> diagnostic (CreateDeployment ''app123'' ''feature-x'') = Some ErrorCreatingDeployment
   \<and> exit_status (Exit 1) = 1"
proof -
  have run1: "main_action ListBranchesAction ''site'' ''app123''
      [(''app_id'', ''app123''), (''build_directory'', ''dist'')]
      None None (sample_world\<lparr>faults := [True]\<rparr>) []
    = (Inl (Exit 1),
       \<lparr>branches = [''main''], faults = [], slot = (''https://upload'', ''job-1''),
        put_reply = Status 200, fs = sample_fs, artifact = None,
        trace = [Remote (ListBranches ''app123'') Failed,
                 Print ErrorListingBranches]\<rparr>,
       [])"
    by code_simp
  have run2: "main_action DeployAction ''site'' ''app123''
      [(''app_id'', ''app123''), (''build_directory'', ''dist'')]
      None (Some ''feature-x'') (sample_world\<lparr>faults := [False, False, True]\<rparr>) [''y'']
    = (Inl (Exit 1),
       \<lparr>branches = [''main'', ''feature-x''], faults = [],
        slot = (''https://upload'', ''job-1''), put_reply = Status 200, fs = sample_fs,
        artifact = Some [([''index.html''], ''<html></html>''),
                         ([''css'', ''site.css''], ''body {}'')],
        trace = [Remote (GetBranch ''app123'' ''feature-x'') NotFound,
                 Print (BranchDoesNotExist ''feature-x''),
                 Prompt (AskCreateGitBranch ''feature-x''),
                 Remote (CreateBranch ''app123'' ''feature-x'') Ok,
                 Print (CreatedNewBranch ''feature-x''),
                 Print (Deploying ''site'' ''feature-x''),
                 Print (CreatingDeployment ''app123'' ''feature-x''),
                 Remote (CreateDeployment ''app123'' ''feature-x'') Failed,
                 Print ErrorCreatingDeployment]\<rparr>,
       [])"
    by code_simp
  have cl1: "clean (sample_world\<lparr>faults := [True]\<rparr>)"
    and cl2: "clean (sample_world\<lparr>faults := [False, False, True]\<rparr>)"
    by (simp_all add: clean_def sample_world_def)
  have tr1: "trace \<lparr>branches = [''main''], faults = [], slot = (''https://upload'', ''job-1''),
        put_reply = Status 200, fs = sample_fs, artifact = None,
        trace = [Remote (ListBranches ''app123'') Failed,
                 Print ErrorListingBranches]\<rparr>
      = [] @ Remote (ListBranches ''app123'') Failed # [Print ErrorListingBranches]"
    by simp
  have tr2: "trace \<lparr>branches = [''main'', ''feature-x''], faults = [],
        slot = (''https://upload'', ''job-1''), put_reply = Status 200, fs = sample_fs,
        artifact = Some [([''index.html''], ''<html></html>''),
                         ([''css'', ''site.css''], ''body {}'')],
        trace = [Remote (GetBranch ''app123'' ''feature-x'') NotFound,
                 Print (BranchDoesNotExist ''feature-x''),
                 Prompt (AskCreateGitBranch ''feature-x''),
                 Remote (CreateBranch ''app123'' ''feature-x'') Ok,
                 Print (CreatedNewBranch ''feature-x''),
                 Print (Deploying ''site'' ''feature-x''),
                 Print (CreatingDeployment ''app123'' ''feature-x''),
                 Remote (CreateDeployment ''app123'' ''feature-x'') Failed,
                 Print ErrorCreatingDeployment]\<rparr>
      = [Remote (GetBranch ''app123'' ''feature-x'') NotFound,
         Print (BranchDoesNotExist ''feature-x''),
         Prompt (AskCreateGitBranch ''feature-x''),
         Remote (CreateBranch ''app123'' ''feature-x'') Ok,
         Print (CreatedNewBranch ''feature-x''),
         Print (Deploying ''site'' ''feature-x''),
         Print (CreatingDeployment ''app123'' ''feature-x'')]
        @ Remote (CreateDeployment ''app123'' ''feature-x'') Failed
        # [Print ErrorCreatingDeployment]"
    by simp
  have ft1: "fatal_event (Remote (ListBranches ''app123'') Failed)"
    and ft2: "fatal_event (Remote (CreateDeployment ''app123'' ''feature-x'') Failed)"
    by simp_all
  from service_error_fatal [OF cl1 run1 tr1 ft1] service_error_fatal [OF cl2 run2 tr2 ft2]
    run1 run2
  show ?thesis by simp
qed

end
